theory Spec2Isabelle
  imports Main
begin

section \<open>Strings\<close>

text \<open>
  A JavaScript string is a sequence of UTF-16 code units. The model keeps each code unit
  as a natural number, so that the characters the server looks at (\<open><\<close>, \<open>>\<close>, the two
  quotes, and white space) are the numbers of the source's characters. Object keys and
  the literals of the source are written as HOL strings and converted with \<open>js\<close>.
\<close>

type_synonym jsstring = "nat list"

definition js :: "string \<Rightarrow> jsstring" where
  "js s = map of_char s"

text \<open>
  \<open>String.prototype.trim\<close> removes, at both ends, the code units that ECMAScript calls
  WhiteSpace or LineTerminator: TAB, LF, VT, FF, CR, SPACE, NBSP, U+1680, U+2000 to
  U+200A, U+2028, U+2029, U+202F, U+205F, U+3000 and U+FEFF.
\<close>

definition isWhiteSpace :: "nat \<Rightarrow> bool" where
  "isWhiteSpace c \<longleftrightarrow>
     c \<in> set [9, 10, 11, 12, 13, 32, 160, 5760, 8232, 8233, 8239, 8287, 12288, 65279]
     \<or> (8192 \<le> c \<and> c \<le> 8202)"

definition trim :: "jsstring \<Rightarrow> jsstring" where
  "trim s = rev (dropWhile isWhiteSpace (rev (dropWhile isWhiteSpace s)))"

text \<open>
  \<open>s.replace(/c/g, r)\<close> for a pattern of one literal character: every occurrence of the
  code unit \<open>c\<close> becomes the string \<open>r\<close>.
\<close>

definition replaceAll :: "nat \<Rightarrow> jsstring \<Rightarrow> jsstring \<Rightarrow> jsstring" where
  "replaceAll c r s = concat (map (\<lambda>x. if x = c then r else [x]) s)"

text \<open>
  \<^verbatim>\<open>
  function sanitizeInput(input: string): string {
    return input
      .replace(/</g, "&lt;")
      .replace(/>/g, "&gt;")
      .replace(/"/g, "&quot;")
      .replace(/'/g, "&#x27;")
      .trim();
  }
  \<close>
  The code units are 60 for \<open><\<close>, 62 for \<open>>\<close>, 34 for the double quote and 39 for the
  single quote.
\<close>

definition sanitizeInput :: "jsstring \<Rightarrow> jsstring" where
  "sanitizeInput input =
     trim (replaceAll 39 (js ''&#x27;'')
       (replaceAll 34 (js ''&quot;'')
         (replaceAll 62 (js ''&gt;'')
           (replaceAll 60 (js ''&lt;'') input))))"

section \<open>Data model\<close>

text \<open>
  The tables of \<^verbatim>\<open>shared/schema.ts\<close>. A row is a record; a table is the list of its rows in
  insertion order. Integer columns are \<open>int\<close> (the range check of a 32-bit column is
  not modelled), timestamps are instants counted as natural numbers, a nullable column
  is an \<open>option\<close>.
\<close>

datatype role = Admin | Moderator | Member | NewUser

datatype invite_status = Pending | Approved | Rejected

datatype moderation_action =
    DeletePostAction | DeleteThreadAction | BanUserAction | WarnUserAction | LockThreadAction
  | PinThreadAction | UnpinThreadAction | ApproveInviteAction | RejectInviteAction

type_synonym timestamp = nat

record user =
  u_id :: int
  u_username :: jsstring
  u_email :: jsstring
  u_password :: jsstring
  u_role :: role
  u_avatar :: "jsstring option"
  u_bio :: "jsstring option"
  u_postCount :: int
  u_threadCount :: int
  u_isBanned :: bool
  u_banReason :: "jsstring option"
  u_hasPrivateAccess :: bool
  u_createdAt :: timestamp
  u_lastActive :: timestamp

record category =
  c_id :: int
  c_name :: jsstring
  c_description :: "jsstring option"
  c_slug :: jsstring
  c_icon :: "jsstring option"
  c_sortOrder :: int
  c_isPrivate :: bool
  c_threadCount :: int
  c_postCount :: int

record thread =
  t_id :: int
  t_title :: jsstring
  t_content :: jsstring
  t_categoryId :: int
  t_authorId :: int
  t_isPinned :: bool
  t_isLocked :: bool
  t_viewCount :: int
  t_replyCount :: int
  t_lastReplyAt :: "timestamp option"
  t_lastReplyById :: "int option"
  t_createdAt :: timestamp
  t_updatedAt :: timestamp

record post =
  p_id :: int
  p_content :: jsstring
  p_threadId :: int
  p_authorId :: int
  p_parentId :: "int option"
  p_isEdited :: bool
  p_createdAt :: timestamp
  p_updatedAt :: timestamp

record privateInvite =
  i_id :: int
  i_userId :: int
  i_reason :: jsstring
  i_status :: invite_status
  i_reviewedById :: "int option"
  i_reviewedAt :: "timestamp option"
  i_createdAt :: timestamp

record moderationLog =
  l_id :: int
  l_moderatorId :: int
  l_targetUserId :: "int option"
  l_action :: moderation_action
  l_reason :: "jsstring option"
  l_details :: "jsstring option"
  l_createdAt :: timestamp

text \<open>
  The database: the six tables the server writes, and for each the next value of its
  identity column (\<^verbatim>\<open>generatedAlwaysAsIdentity\<close>, which starts at 1).
\<close>

record db =
  users :: "user list"
  categories :: "category list"
  threads :: "thread list"
  posts :: "post list"
  privateInvites :: "privateInvite list"
  moderationLogs :: "moderationLog list"
  nextUserId :: int
  nextThreadId :: int
  nextPostId :: int
  nextInviteId :: int
  nextLogId :: int

definition emptyDb :: db where
  "emptyDb = \<lparr>users = [], categories = [], threads = [], posts = [], privateInvites = [],
     moderationLogs = [], nextUserId = 1, nextThreadId = 1, nextPostId = 1,
     nextInviteId = 1, nextLogId = 1\<rparr>"

section \<open>Storage\<close>

text \<open>
  \<^verbatim>\<open>DatabaseStorage\<close>. A \<^verbatim>\<open>select ... where\<close> is a filter of the table, \<^verbatim>\<open>const [x] = rows\<close>
  takes the first row or \<^verbatim>\<open>undefined\<close>, an \<^verbatim>\<open>update ... where\<close> maps over the table. The
  statements of one method run one after the other, each on the database the one before
  left. A statement the database refuses (a foreign key with no target, a duplicate of
  a unique column, a string longer than its \<^verbatim>\<open>varchar\<close>) throws: the method returns
  \<open>None\<close> and the database it was given. The clock is read once per method and passed
  in as \<open>now\<close>.
\<close>

text \<open>
  Two more refusals matter where a handler hands the database a value of the request
  that it has not looked at. The id columns are \<^verbatim>\<open>integer\<close>, 32 bits: a statement that
  compares one with a number outside that range throws. A \<^verbatim>\<open>text\<close> column cannot hold
  the character U+0000: a statement that stores a string with it throws. A string
  reaches the database in UTF-8, where a surrogate with no partner becomes U+FFFD, and
  that is what the column holds and \<^verbatim>\<open>returning()\<close> gives back.
\<close>

definition int4 :: "int \<Rightarrow> bool" where
  "int4 n \<longleftrightarrow> - 2147483648 \<le> n \<and> n \<le> 2147483647"

fun wellFormed :: "jsstring \<Rightarrow> jsstring" where
  "wellFormed [] = []"
| "wellFormed [x] = (if 55296 \<le> x \<and> x \<le> 57343 then [65533] else [x])"
| "wellFormed (h # l # r) =
     (if 55296 \<le> h \<and> h \<le> 56319 \<and> 56320 \<le> l \<and> l \<le> 57343
      then h # l # wellFormed r
      else if 55296 \<le> h \<and> h \<le> 57343 then 65533 # wellFormed (l # r)
      else h # wellFormed (l # r))"

definition pgText :: "jsstring \<Rightarrow> jsstring option" where
  "pgText s = (if 0 \<in> set s then None else Some (wellFormed s))"

definition getUser :: "db \<Rightarrow> int \<Rightarrow> user option" where
  "getUser d ident = find (\<lambda>u. u_id u = ident) (users d)"

definition getUserByEmail :: "db \<Rightarrow> jsstring \<Rightarrow> user option" where
  "getUserByEmail d email = find (\<lambda>u. u_email u = email) (users d)"

definition getUserByUsername :: "db \<Rightarrow> jsstring \<Rightarrow> user option" where
  "getUserByUsername d username = find (\<lambda>u. u_username u = username) (users d)"

text \<open>A \<^verbatim>\<open>varchar(n)\<close> counts characters: a surrogate pair is one.\<close>

fun codePoints :: "jsstring \<Rightarrow> nat" where
  "codePoints [] = 0"
| "codePoints [x] = 1"
| "codePoints (h # l # r) =
     (if 55296 \<le> h \<and> h \<le> 56319 \<and> 56320 \<le> l \<and> l \<le> 57343
      then Suc (codePoints r) else Suc (codePoints (l # r)))"

definition createUser ::
  "timestamp \<Rightarrow> jsstring \<Rightarrow> jsstring \<Rightarrow> jsstring \<Rightarrow> role \<Rightarrow> db \<Rightarrow> user option \<times> db" where
  "createUser now username email password r d =
     (if 50 < codePoints username \<or> 255 < codePoints email
         \<or> getUserByUsername d username \<noteq> None \<or> getUserByEmail d email \<noteq> None
      then (None, d)
      else
        let u = \<lparr>u_id = nextUserId d, u_username = username, u_email = email,
                 u_password = password, u_role = r, u_avatar = None, u_bio = None,
                 u_postCount = 0, u_threadCount = 0, u_isBanned = False, u_banReason = None,
                 u_hasPrivateAccess = False, u_createdAt = now, u_lastActive = now\<rparr>
        in (Some u, d\<lparr>users := users d @ [u], nextUserId := nextUserId d + 1\<rparr>))"

text \<open>
  \<^verbatim>\<open>updateUser(id, data)\<close>: \<open>data\<close> is the set of columns to overwrite, given here as the
  function that overwrites them. The callers change \<open>lastActive\<close>, \<open>role\<close>, or the ban
  columns, none of which has a constraint.
\<close>

definition updateUser :: "int \<Rightarrow> (user \<Rightarrow> user) \<Rightarrow> db \<Rightarrow> user option \<times> db" where
  "updateUser ident data d =
     (let d' = d\<lparr>users := map (\<lambda>u. if u_id u = ident then data u else u) (users d)\<rparr>
      in (find (\<lambda>u. u_id u = ident) (users d'), d'))"

text \<open>
  \<^verbatim>\<open>orderBy(desc(col))\<close>: SQL leaves the order of rows with equal keys open; the model
  puts the row inserted later first.
\<close>

definition orderByDesc :: "('a \<Rightarrow> nat) \<Rightarrow> 'a list \<Rightarrow> 'a list" where
  "orderByDesc key rows = rev (sort_key key rows)"

definition getAllUsers :: "db \<Rightarrow> user list" where
  "getAllUsers d = orderByDesc u_createdAt (users d)"

definition getCategories :: "db \<Rightarrow> category list" where
  "getCategories d = sort_key c_sortOrder (categories d)"

definition getCategoryBySlug :: "db \<Rightarrow> jsstring \<Rightarrow> category option" where
  "getCategoryBySlug d slug = find (\<lambda>c. c_slug c = slug) (categories d)"

text \<open>
  \<^verbatim>\<open>
  async updateCategoryStats(id: number): Promise<void> {
    const threadResult = await db.select({ count: sql<number>`count(*)::int` })
      .from(threads).where(eq(threads.categoryId, id));
    const postResult = await db.select({ count: sql<number>`count(*)::int` })
      .from(posts).innerJoin(threads, eq(posts.threadId, threads.id))
      .where(eq(threads.categoryId, id));
    await db.update(categories).set({
      threadCount: threadResult[0]?.count || 0,
      postCount: postResult[0]?.count || 0,
    }).where(eq(categories.id, id));
  }
  \<close>
\<close>

definition updateCategoryStats :: "int \<Rightarrow> db \<Rightarrow> db" where
  "updateCategoryStats ident d =
     (let threadResult = length (filter (\<lambda>t. t_categoryId t = ident) (threads d));
          postResult = length (concat (map (\<lambda>p.
              filter (\<lambda>t. p_threadId p = t_id t \<and> t_categoryId t = ident) (threads d))
            (posts d)))
      in d\<lparr>categories := map (\<lambda>c. if c_id c = ident
               then c\<lparr>c_threadCount := int threadResult, c_postCount := int postResult\<rparr>
               else c) (categories d)\<rparr>)"

text \<open>
  \<^verbatim>\<open>getThread\<close> returns the thread with its relations \<open>author\<close>, \<open>category\<close> and
  \<open>lastReplyBy\<close>, each the row its foreign key names (or nothing).
\<close>

record threadWithRelations =
  tr_thread :: thread
  tr_author :: "user option"
  tr_category :: "category option"
  tr_lastReplyBy :: "user option"

definition getThread :: "db \<Rightarrow> int \<Rightarrow> threadWithRelations option" where
  "getThread d ident =
     (case find (\<lambda>t. t_id t = ident) (threads d) of
        None \<Rightarrow> None
      | Some t \<Rightarrow> Some \<lparr>tr_thread = t,
          tr_author = getUser d (t_authorId t),
          tr_category = find (\<lambda>c. c_id c = t_categoryId t) (categories d),
          tr_lastReplyBy = (case t_lastReplyById t of None \<Rightarrow> None | Some u \<Rightarrow> getUser d u)\<rparr>)"

text \<open>
  \<^verbatim>\<open>
  async createThread(thread: InsertThread): Promise<Thread> {
    const [result] = await db.insert(threads).values(thread).returning();
    await db.update(users).set({
      threadCount: sql`${users.threadCount} + 1`
    }).where(eq(users.id, thread.authorId));
    await this.updateCategoryStats(thread.categoryId);
    return result;
  }
  \<close>
\<close>

definition createThread ::
  "timestamp \<Rightarrow> jsstring \<Rightarrow> jsstring \<Rightarrow> int \<Rightarrow> int \<Rightarrow> db \<Rightarrow> thread option \<times> db" where
  "createThread now title content categoryId authorId d =
     (if 255 < codePoints title \<or> find (\<lambda>c. c_id c = categoryId) (categories d) = None
         \<or> getUser d authorId = None
      then (None, d)
      else
        let result = \<lparr>t_id = nextThreadId d, t_title = title, t_content = content,
                t_categoryId = categoryId, t_authorId = authorId, t_isPinned = False,
                t_isLocked = False, t_viewCount = 0, t_replyCount = 0, t_lastReplyAt = None,
                t_lastReplyById = None, t_createdAt = now, t_updatedAt = now\<rparr>;
            d1 = d\<lparr>threads := threads d @ [result], nextThreadId := nextThreadId d + 1\<rparr>;
            d2 = d1\<lparr>users := map (\<lambda>u. if u_id u = authorId
                    then u\<lparr>u_threadCount := u_threadCount u + 1\<rparr> else u) (users d1)\<rparr>
        in (Some result, updateCategoryStats categoryId d2))"

text \<open>
  \<^verbatim>\<open>
  async deleteThread(id: number): Promise<void> {
    const thread = await this.getThread(id);
    if (thread) {
      await db.delete(threads).where(eq(threads.id, id));
      await this.updateCategoryStats(thread.categoryId);
    }
  }
  \<close>
  The posts of the thread go with it (\<^verbatim>\<open>onDelete: "cascade"\<close> on \<open>posts.threadId\<close>).
\<close>

definition deleteThread :: "int \<Rightarrow> db \<Rightarrow> db" where
  "deleteThread ident d =
     (case getThread d ident of
        None \<Rightarrow> d
      | Some thread \<Rightarrow>
          updateCategoryStats (t_categoryId (tr_thread thread))
            (d\<lparr>threads := filter (\<lambda>t. t_id t \<noteq> ident) (threads d),
               posts := filter (\<lambda>p. p_threadId p \<noteq> ident) (posts d)\<rparr>))"

text \<open>
  \<^verbatim>\<open>
  async updateThread(id: number, data: Partial<Thread>): Promise<Thread | undefined> {
    const [result] = await db.update(threads).set({ ...data, updatedAt: new Date() })
      .where(eq(threads.id, id)).returning();
    return result || undefined;
  }
  \<close>
  As for \<open>updateUser\<close>, \<open>data\<close> is the function that overwrites the columns given; the
  model has it change unconstrained columns only (pinned, locked).
\<close>

definition updateThread ::
  "timestamp \<Rightarrow> int \<Rightarrow> (thread \<Rightarrow> thread) \<Rightarrow> db \<Rightarrow> thread option \<times> db" where
  "updateThread now ident data d =
     (let d' = d\<lparr>threads := map (\<lambda>t. if t_id t = ident then (data t)\<lparr>t_updatedAt := now\<rparr> else t)
                 (threads d)\<rparr>
      in (find (\<lambda>t. t_id t = ident) (threads d'), d'))"

definition incrementViewCount :: "int \<Rightarrow> db \<Rightarrow> db" where
  "incrementViewCount ident d =
     d\<lparr>threads := map (\<lambda>t. if t_id t = ident then t\<lparr>t_viewCount := t_viewCount t + 1\<rparr> else t)
         (threads d)\<rparr>"

text \<open>
  \<^verbatim>\<open>
  async createPost(post: InsertPost): Promise<Post> {
    const [result] = await db.insert(posts).values(post).returning();
    await db.update(threads).set({
      replyCount: sql`${threads.replyCount} + 1`,
      lastReplyAt: new Date(),
      lastReplyById: post.authorId,
    }).where(eq(threads.id, post.threadId));
    await db.update(users).set({
      postCount: sql`${users.postCount} + 1`,
    }).where(eq(users.id, post.authorId));
    const thread = await db.select().from(threads).where(eq(threads.id, post.threadId));
    if (thread[0]) {
      await this.updateCategoryStats(thread[0].categoryId);
    }
    return result;
  }
  \<close>
\<close>

definition createPost ::
  "timestamp \<Rightarrow> jsstring \<Rightarrow> int \<Rightarrow> int \<Rightarrow> int option \<Rightarrow> db \<Rightarrow> post option \<times> db" where
  "createPost now content threadId authorId parentId d =
     (if find (\<lambda>t. t_id t = threadId) (threads d) = None \<or> getUser d authorId = None
      then (None, d)
      else
        let result = \<lparr>p_id = nextPostId d, p_content = content, p_threadId = threadId,
                p_authorId = authorId, p_parentId = parentId, p_isEdited = False,
                p_createdAt = now, p_updatedAt = now\<rparr>;
            d1 = d\<lparr>posts := posts d @ [result], nextPostId := nextPostId d + 1\<rparr>;
            d2 = d1\<lparr>threads := map (\<lambda>t. if t_id t = threadId
                    then t\<lparr>t_replyCount := t_replyCount t + 1, t_lastReplyAt := Some now,
                           t_lastReplyById := Some authorId\<rparr>
                    else t) (threads d1)\<rparr>;
            d3 = d2\<lparr>users := map (\<lambda>u. if u_id u = authorId
                    then u\<lparr>u_postCount := u_postCount u + 1\<rparr> else u) (users d2)\<rparr>
        in (Some result,
            (case filter (\<lambda>t. t_id t = threadId) (threads d3) of
               [] \<Rightarrow> d3
             | thread0 # _ \<Rightarrow> updateCategoryStats (t_categoryId thread0) d3)))"

text \<open>
  \<^verbatim>\<open>
  async deletePost(id: number): Promise<void> {
    const post = await db.select().from(posts).where(eq(posts.id, id));
    if (post[0]) {
      await db.delete(posts).where(eq(posts.id, id));
      await db.update(threads).set({
        replyCount: sql`${threads.replyCount} - 1`,
      }).where(eq(threads.id, post[0].threadId));
      const thread = await db.select().from(threads).where(eq(threads.id, post[0].threadId));
      if (thread[0]) {
        await this.updateCategoryStats(thread[0].categoryId);
      }
    }
  }
  \<close>
  This is the method for an \<open>id\<close> within the range of the id column. For an \<open>id\<close>
  outside it the first select throws and nothing is written; \<open>deletePostRoute\<close>, the
  one caller, has that case.
\<close>

definition deletePost :: "int \<Rightarrow> db \<Rightarrow> db" where
  "deletePost ident d =
     (case filter (\<lambda>p. p_id p = ident) (posts d) of
        [] \<Rightarrow> d
      | post0 # _ \<Rightarrow>
          let d1 = d\<lparr>posts := filter (\<lambda>p. p_id p \<noteq> ident) (posts d)\<rparr>;
              d2 = d1\<lparr>threads := map (\<lambda>t. if t_id t = p_threadId post0
                      then t\<lparr>t_replyCount := t_replyCount t - 1\<rparr> else t) (threads d1)\<rparr>
          in (case filter (\<lambda>t. t_id t = p_threadId post0) (threads d2) of
                [] \<Rightarrow> d2
              | thread0 # _ \<Rightarrow> updateCategoryStats (t_categoryId thread0) d2))"

text \<open>
  \<^verbatim>\<open>
  async getPrivateInviteByUser(userId: number): Promise<PrivateInvite | undefined> {
    const [invite] = await db.select().from(privateInvites)
      .where(eq(privateInvites.userId, userId)).orderBy(desc(privateInvites.createdAt));
    return invite || undefined;
  }
  \<close>
\<close>

definition getPrivateInviteByUser :: "db \<Rightarrow> int \<Rightarrow> privateInvite option" where
  "getPrivateInviteByUser d userId =
     (case orderByDesc i_createdAt (filter (\<lambda>i. i_userId i = userId) (privateInvites d)) of
        [] \<Rightarrow> None
      | invite # _ \<Rightarrow> Some invite)"

text \<open>
  A state of the \<open>privateInvites\<close> table in which a pending request is always its user's
  most recent one (the one \<open>getPrivateInviteByUser\<close> returns).
\<close>

definition pendingIsLatest :: "db \<Rightarrow> bool" where
  "pendingIsLatest d \<longleftrightarrow>
     (\<forall>i\<in>set (privateInvites d).
        i_status i = Pending \<longrightarrow> getPrivateInviteByUser d (i_userId i) = Some i)"

definition getPendingInvites :: "db \<Rightarrow> privateInvite list" where
  "getPendingInvites d =
     orderByDesc i_createdAt (filter (\<lambda>i. i_status i = Pending) (privateInvites d))"

text \<open>
  \<^verbatim>\<open>
  async createPrivateInvite(invite: InsertPrivateInvite): Promise<PrivateInvite> {
    const [result] = await db.insert(privateInvites).values(invite).returning();
    return result;
  }
  \<close>
  The insert throws when \<open>userId\<close> names no user, and when \<open>reason\<close> is a text the column
  cannot hold; the row holds the reason as the column stores it.
\<close>

definition createPrivateInvite ::
  "timestamp \<Rightarrow> int \<Rightarrow> jsstring \<Rightarrow> db \<Rightarrow> privateInvite option \<times> db" where
  "createPrivateInvite now userId reason d =
     (if getUser d userId = None then (None, d)
      else (case pgText reason of
              None \<Rightarrow> (None, d)
            | Some stored \<Rightarrow>
                let result = \<lparr>i_id = nextInviteId d, i_userId = userId, i_reason = stored,
                        i_status = Pending, i_reviewedById = None, i_reviewedAt = None,
                        i_createdAt = now\<rparr>
                in (Some result,
                    d\<lparr>privateInvites := privateInvites d @ [result],
                      nextInviteId := nextInviteId d + 1\<rparr>)))"

text \<open>
  \<^verbatim>\<open>
  async updatePrivateInvite(id: number, status: "approved" | "rejected", reviewerId: number)
      : Promise<PrivateInvite | undefined> {
    const [result] = await db.update(privateInvites).set({
      status,
      reviewedById: reviewerId,
      reviewedAt: new Date(),
    }).where(eq(privateInvites.id, id)).returning();
    if (result && status === "approved") {
      await db.update(users).set({ hasPrivateAccess: true }).where(eq(users.id, result.userId));
    }
    return result || undefined;
  }
  \<close>
  The update throws when \<open>id\<close> is outside the range of the id column, and when rows
  match and \<open>reviewerId\<close> names no user (the foreign key of \<open>reviewedById\<close>); the result
  is then \<open>None\<close> and nothing was written.
\<close>

definition updatePrivateInvite ::
  "timestamp \<Rightarrow> int \<Rightarrow> invite_status \<Rightarrow> int \<Rightarrow> db \<Rightarrow> (privateInvite option \<times> db) option" where
  "updatePrivateInvite now ident status reviewerId d =
     (if \<not> int4 ident then None
      else
        (case find (\<lambda>i. i_id i = ident) (privateInvites d) of
           None \<Rightarrow> Some (None, d)
         | Some _ \<Rightarrow>
             if getUser d reviewerId = None then None
             else
               let d1 = d\<lparr>privateInvites := map (\<lambda>i. if i_id i = ident
                           then i\<lparr>i_status := status, i_reviewedById := Some reviewerId,
                                  i_reviewedAt := Some now\<rparr>
                           else i) (privateInvites d)\<rparr>
               in (case find (\<lambda>i. i_id i = ident) (privateInvites d1) of
                     None \<Rightarrow> Some (None, d1)
                   | Some result \<Rightarrow>
                       if status = Approved
                       then Some (Some result,
                         d1\<lparr>users := map (\<lambda>u. if u_id u = i_userId result
                                then u\<lparr>u_hasPrivateAccess := True\<rparr> else u) (users d1)\<rparr>)
                       else Some (Some result, d1))))"

definition createModerationLog ::
  "timestamp \<Rightarrow> int \<Rightarrow> int option \<Rightarrow> moderation_action \<Rightarrow> jsstring option \<Rightarrow> jsstring option
     \<Rightarrow> db \<Rightarrow> moderationLog option \<times> db" where
  "createModerationLog now moderatorId targetUserId action reason details d =
     (if getUser d moderatorId = None
         \<or> (case targetUserId of None \<Rightarrow> False | Some t \<Rightarrow> getUser d t = None)
      then (None, d)
      else
        let result = \<lparr>l_id = nextLogId d, l_moderatorId = moderatorId,
                l_targetUserId = targetUserId, l_action = action, l_reason = reason,
                l_details = details, l_createdAt = now\<rparr>
        in (Some result,
            d\<lparr>moderationLogs := moderationLogs d @ [result], nextLogId := nextLogId d + 1\<rparr>))"

section \<open>JSON and responses\<close>

text \<open>
  What \<^verbatim>\<open>res.json\<close> sends: an object is the list of its keys and values in the order of
  the columns, a \<^verbatim>\<open>Date\<close> is sent as the text of its instant.
\<close>

datatype json =
    JNull | JBool bool | JNum int | JStr jsstring | JDate timestamp
  | JArr "json list" | JObj "(string \<times> json) list"

record response =
  r_status :: nat
  r_body :: json

definition respond :: "nat \<Rightarrow> json \<Rightarrow> response" where
  "respond code j = \<lparr>r_status = code, r_body = j\<rparr>"

text \<open>
  The messages are the literals of the source. A letter outside ASCII, and the
  apostrophe, is written as its code unit between the ASCII stretches: 39 apostrophe,
  224 a grave, 232 e grave, 233 e acute, 244 o circumflex.
\<close>

definition message :: "jsstring \<Rightarrow> json" where
  "message m = JObj [(''message'', JStr m)]"

definition roleName :: "role \<Rightarrow> jsstring" where
  "roleName r = (case r of Admin \<Rightarrow> js ''admin'' | Moderator \<Rightarrow> js ''moderator''
     | Member \<Rightarrow> js ''member'' | NewUser \<Rightarrow> js ''new_user'')"

definition statusName :: "invite_status \<Rightarrow> jsstring" where
  "statusName s = (case s of Pending \<Rightarrow> js ''pending'' | Approved \<Rightarrow> js ''approved''
     | Rejected \<Rightarrow> js ''rejected'')"

definition optStr :: "jsstring option \<Rightarrow> json" where
  "optStr x = (case x of None \<Rightarrow> JNull | Some s \<Rightarrow> JStr s)"

definition optNum :: "int option \<Rightarrow> json" where
  "optNum x = (case x of None \<Rightarrow> JNull | Some n \<Rightarrow> JNum n)"

definition optDate :: "timestamp option \<Rightarrow> json" where
  "optDate x = (case x of None \<Rightarrow> JNull | Some t \<Rightarrow> JDate t)"

definition userJson :: "user \<Rightarrow> json" where
  "userJson u = JObj
     [(''id'', JNum (u_id u)), (''username'', JStr (u_username u)),
      (''email'', JStr (u_email u)), (''password'', JStr (u_password u)),
      (''role'', JStr (roleName (u_role u))), (''avatar'', optStr (u_avatar u)),
      (''bio'', optStr (u_bio u)), (''postCount'', JNum (u_postCount u)),
      (''threadCount'', JNum (u_threadCount u)), (''isBanned'', JBool (u_isBanned u)),
      (''banReason'', optStr (u_banReason u)),
      (''hasPrivateAccess'', JBool (u_hasPrivateAccess u)),
      (''createdAt'', JDate (u_createdAt u)), (''lastActive'', JDate (u_lastActive u))]"

definition threadJson :: "thread \<Rightarrow> json" where
  "threadJson t = JObj
     [(''id'', JNum (t_id t)), (''title'', JStr (t_title t)), (''content'', JStr (t_content t)),
      (''categoryId'', JNum (t_categoryId t)), (''authorId'', JNum (t_authorId t)),
      (''isPinned'', JBool (t_isPinned t)), (''isLocked'', JBool (t_isLocked t)),
      (''viewCount'', JNum (t_viewCount t)), (''replyCount'', JNum (t_replyCount t)),
      (''lastReplyAt'', optDate (t_lastReplyAt t)),
      (''lastReplyById'', optNum (t_lastReplyById t)),
      (''createdAt'', JDate (t_createdAt t)), (''updatedAt'', JDate (t_updatedAt t))]"

definition postJson :: "post \<Rightarrow> json" where
  "postJson p = JObj
     [(''id'', JNum (p_id p)), (''content'', JStr (p_content p)),
      (''threadId'', JNum (p_threadId p)), (''authorId'', JNum (p_authorId p)),
      (''parentId'', optNum (p_parentId p)), (''isEdited'', JBool (p_isEdited p)),
      (''createdAt'', JDate (p_createdAt p)), (''updatedAt'', JDate (p_updatedAt p))]"

definition inviteJson :: "privateInvite \<Rightarrow> json" where
  "inviteJson i = JObj
     [(''id'', JNum (i_id i)), (''userId'', JNum (i_userId i)), (''reason'', JStr (i_reason i)),
      (''status'', JStr (statusName (i_status i))),
      (''reviewedById'', optNum (i_reviewedById i)),
      (''reviewedAt'', optDate (i_reviewedAt i)), (''createdAt'', JDate (i_createdAt i))]"

text \<open>\<^verbatim>\<open>const { password: _, ...safeUser } = user\<close>: the object without one key.\<close>

fun omit :: "string \<Rightarrow> json \<Rightarrow> json" where
  "omit k (JObj kvs) = JObj (filter (\<lambda>kv. fst kv \<noteq> k) kvs)"
| "omit k j = j"

text \<open>Whether a key occurs in a JSON value, at any depth.\<close>

fun hasKey :: "string \<Rightarrow> json \<Rightarrow> bool" where
  "hasKey k (JObj kvs) = list_ex (\<lambda>kv. fst kv = k \<or> hasKey k (snd kv)) kvs"
| "hasKey k (JArr xs) = list_ex (hasKey k) xs"
| "hasKey k j = False"

text \<open>\<^verbatim>\<open>`${n}`\<close> for an integer: its decimal digits, with a minus sign when negative.\<close>

fun digits :: "nat \<Rightarrow> jsstring" where
  "digits n = (if n < 10 then [48 + n] else digits (n div 10) @ [48 + n mod 10])"

declare digits.simps [simp del]

definition showInt :: "int \<Rightarrow> jsstring" where
  "showInt i = (if i < 0 then 45 # digits (nat (- i)) else digits (nat i))"

section \<open>Sessions and middleware\<close>

text \<open>
  The data \<^verbatim>\<open>express-session\<close> keeps for a session: the user the session is bound to and
  the anti-forgery token. A JavaScript condition on a number is false for \<^verbatim>\<open>undefined\<close>
  and for 0 (written out in each guard), on a string for \<^verbatim>\<open>undefined\<close> and for the
  empty string.
\<close>

record session =
  s_userId :: "int option"
  s_csrfToken :: "jsstring option"

definition emptySession :: session where
  "emptySession = \<lparr>s_userId = None, s_csrfToken = None\<rparr>"

definition truthyStr :: "jsstring option \<Rightarrow> bool" where
  "truthyStr x = (case x of None \<Rightarrow> False | Some s \<Rightarrow> s \<noteq> [])"

text \<open>
  A handler answers with a response, the session as it leaves it (\<open>None\<close> once
  \<^verbatim>\<open>req.session.destroy\<close> was called) and the database as it leaves it.
\<close>

type_synonym result = "response \<times> session option \<times> db"

text \<open>
  \<^verbatim>\<open>
  function requireAuth(req, res, next) {
    if (!req.session.userId) {
      return res.status(401).json({ message: "Authentification requise" });
    }
    next();
  }
  \<close>
  \<open>next\<close> is the rest of the chain; it is given the \<open>userId\<close> the guard has seen, which
  the handlers read back as \<^verbatim>\<open>req.session.userId!\<close>.
\<close>

definition requireAuth :: "db \<Rightarrow> session \<Rightarrow> (int \<Rightarrow> result) \<Rightarrow> result" where
  "requireAuth d sess next =
     (case s_userId sess of
        None \<Rightarrow> (respond 401 (message (js ''Authentification requise'')), Some sess, d)
      | Some uid \<Rightarrow>
          if uid = 0 then (respond 401 (message (js ''Authentification requise'')), Some sess, d)
          else next uid)"

text \<open>
  \<^verbatim>\<open>
  function requireRole(...roles: string[]) {
    return async (req, res, next) => {
      if (!req.session.userId) {
        return res.status(401).json({ message: "Authentification requise" });
      }
      const user = await storage.getUser(req.session.userId);
      if (!user || !roles.includes(user.role)) {
        return res.status(403).json({ message: "Permissions insuffisantes" });
      }
      next();
    };
  }
  \<close>
\<close>

definition requireRole :: "role list \<Rightarrow> db \<Rightarrow> session \<Rightarrow> (int \<Rightarrow> result) \<Rightarrow> result" where
  "requireRole roles d sess next =
     (case s_userId sess of
        None \<Rightarrow> (respond 401 (message (js ''Authentification requise'')), Some sess, d)
      | Some uid \<Rightarrow>
          if uid = 0 then (respond 401 (message (js ''Authentification requise'')), Some sess, d)
          else (case getUser d uid of
                  None \<Rightarrow> (respond 403 (message (js ''Permissions insuffisantes'')), Some sess, d)
                | Some user \<Rightarrow>
                    if u_role user \<in> set roles then next uid
                    else (respond 403 (message (js ''Permissions insuffisantes'')), Some sess, d)))"

text \<open>
  \<^verbatim>\<open>
  async function checkBanned(req, res, next) {
    if (req.session.userId) {
      const user = await storage.getUser(req.session.userId);
      if (user?.isBanned) {
        req.session.destroy(() => {});
        return res.status(403).json({ message: "Votre compte a \u00e9t\u00e9 banni" });
      }
    }
    next();
  }
  \<close>
\<close>

definition bannedResponse :: response where
  "bannedResponse = respond 403 (message (js ''Votre compte a '' @ [233] @ js ''t'' @ [233] @ js '' banni''))"

definition checkBanned :: "db \<Rightarrow> session \<Rightarrow> (session \<Rightarrow> result) \<Rightarrow> result" where
  "checkBanned d sess next =
     (case s_userId sess of
        None \<Rightarrow> next sess
      | Some uid \<Rightarrow>
          if uid = 0 then next sess
          else (case getUser d uid of
                  None \<Rightarrow> next sess
                | Some user \<Rightarrow>
                    if u_isBanned user then (bannedResponse, None, d) else next sess))"

text \<open>
  \<^verbatim>\<open>
  export function csrfProtection(req, res, next) {
    if (!req.session.csrfToken) {
      req.session.csrfToken = generateToken();
    }
    if (["GET", "HEAD", "OPTIONS"].includes(req.method)) {
      return next();
    }
    const clientToken = req.headers["x-csrf-token"] as string | undefined;
    if (!clientToken || clientToken !== req.session.csrfToken) {
      return res.status(403).json({ message: "Token CSRF invalide" });
    }
    next();
  }
  \<close>
  \<open>generateToken()\<close> is 32 random bytes in hexadecimal; the caller passes the value it
  would return as \<open>fresh\<close>.
\<close>

datatype http_method = GET | HEAD | OPTIONS | POST | PUT | PATCH | DELETE

definition csrfResponse :: response where
  "csrfResponse = respond 403 (message (js ''Token CSRF invalide''))"

definition csrfProtection ::
  "jsstring \<Rightarrow> http_method \<Rightarrow> jsstring option \<Rightarrow> db \<Rightarrow> session \<Rightarrow> (session \<Rightarrow> result) \<Rightarrow> result" where
  "csrfProtection fresh method clientToken d sess next =
     (let sess1 = (if \<not> truthyStr (s_csrfToken sess) then sess\<lparr>s_csrfToken := Some fresh\<rparr>
                   else sess)
      in if method \<in> set [GET, HEAD, OPTIONS] then next sess1
         else if \<not> truthyStr clientToken \<or> clientToken \<noteq> s_csrfToken sess1
         then (csrfResponse, Some sess1, d)
         else next sess1)"

definition getCsrfToken :: "jsstring \<Rightarrow> db \<Rightarrow> session \<Rightarrow> result" where
  "getCsrfToken fresh d sess =
     (let sess1 = (if \<not> truthyStr (s_csrfToken sess) then sess\<lparr>s_csrfToken := Some fresh\<rparr>
                   else sess)
      in (respond 200 (JObj [(''csrfToken'', optStr (s_csrfToken sess1))]), Some sess1, d))"

text \<open>
  Two notions for stating what the chain does. \<open>sessionToken\<close> is the token the session
  holds once \<open>csrfProtection\<close> has looked at it: its own, or the fresh one when it had
  none. \<open>boundToBanned\<close> is the test of \<open>checkBanned\<close>: the session names a user, and that
  user is banned.
\<close>

definition sessionToken :: "jsstring \<Rightarrow> session \<Rightarrow> jsstring" where
  "sessionToken fresh sess =
     (case s_csrfToken sess of None \<Rightarrow> fresh | Some t \<Rightarrow> if t = [] then fresh else t)"

definition boundToBanned :: "db \<Rightarrow> session \<Rightarrow> bool" where
  "boundToBanned d sess =
     (case s_userId sess of
        None \<Rightarrow> False
      | Some uid \<Rightarrow>
          uid \<noteq> 0 \<and> (case getUser d uid of None \<Rightarrow> False | Some user \<Rightarrow> u_isBanned user))"

section \<open>Routes\<close>

text \<open>
  What a handler takes from outside the repository, per request: the clock, and the
  library functions \<^verbatim>\<open>bcrypt.hash\<close>, \<^verbatim>\<open>bcrypt.compare\<close>, zod's e-mail test and
  \<^verbatim>\<open>String.prototype.toLowerCase\<close>, which the model leaves open.
\<close>

record env =
  e_now :: timestamp
  e_bcryptHash :: "jsstring \<Rightarrow> jsstring"
  e_bcryptCompare :: "jsstring \<Rightarrow> jsstring \<Rightarrow> bool"
  e_isEmail :: "jsstring \<Rightarrow> bool"
  e_toLowerCase :: "jsstring \<Rightarrow> jsstring"

text \<open>
  \<^verbatim>\<open>registerSchema.parse(req.body)\<close> and \<^verbatim>\<open>loginSchema.parse(req.body)\<close> on a body whose
  fields are strings: the result is the body, or the message of the first issue
  (\<^verbatim>\<open>error.errors[0].message\<close>). The issues come in the order of the fields and of the
  checks of a field, the refinement last. The message of \<^verbatim>\<open>max(50)\<close> is zod's own.
\<close>

record registerBody =
  rb_username :: jsstring
  rb_email :: jsstring
  rb_password :: jsstring
  rb_confirmPassword :: jsstring

record loginBody =
  lb_email :: jsstring
  lb_password :: jsstring

definition registerSchema :: "env \<Rightarrow> registerBody \<Rightarrow> jsstring + registerBody" where
  "registerSchema e b =
     (if length (rb_username b) < 3
      then Inl (js ''Le nom d'' @ [39] @ js ''utilisateur doit contenir au moins 3 caract'' @ [232] @ js ''res'')
      else if 50 < length (rb_username b)
      then Inl (js ''String must contain at most 50 character(s)'')
      else if \<not> e_isEmail e (rb_email b) then Inl (js ''Email invalide'')
      else if length (rb_password b) < 8
      then Inl (js ''Le mot de passe doit contenir au moins 8 caract'' @ [232] @ js ''res'')
      else if rb_password b \<noteq> rb_confirmPassword b
      then Inl (js ''Les mots de passe ne correspondent pas'')
      else Inr b)"

definition loginSchema :: "env \<Rightarrow> loginBody \<Rightarrow> jsstring + loginBody" where
  "loginSchema e b =
     (if \<not> e_isEmail e (lb_email b) then Inl (js ''Email invalide'')
      else if length (lb_password b) < 1 then Inl (js ''Mot de passe requis'')
      else Inr b)"

text \<open>\<^verbatim>\<open>POST /api/auth/register\<close>\<close>

definition register :: "env \<Rightarrow> registerBody \<Rightarrow> db \<Rightarrow> session \<Rightarrow> result" where
  "register e b d sess =
     (case registerSchema e b of
        Inl m \<Rightarrow> (respond 400 (message m), Some sess, d)
      | Inr data \<Rightarrow>
          if getUserByEmail d (rb_email data) \<noteq> None
          then (respond 400 (message (js ''Cet email est d'' @ [233] @ js ''j'' @ [224] @ js '' utilis'' @ [233])), Some sess, d)
          else if getUserByUsername d (rb_username data) \<noteq> None
          then (respond 400 (message (js ''Ce nom d'' @ [39] @ js ''utilisateur est d'' @ [233] @ js ''j'' @ [224] @ js '' pris'')), Some sess, d)
          else
            let hashedPassword = e_bcryptHash e (rb_password data)
            in (case createUser (e_now e) (sanitizeInput (rb_username data))
                       (e_toLowerCase e (rb_email data)) hashedPassword NewUser d of
                  (None, d') \<Rightarrow>
                    (respond 500 (message (js ''Une erreur est survenue'')), Some sess, d')
                | (Some user, d') \<Rightarrow>
                    (respond 201 (JObj [(''user'', omit ''password'' (userJson user))]),
                     Some (sess\<lparr>s_userId := Some (u_id user)\<rparr>), d')))"

text \<open>\<^verbatim>\<open>POST /api/auth/login\<close>\<close>

definition login :: "env \<Rightarrow> loginBody \<Rightarrow> db \<Rightarrow> session \<Rightarrow> result" where
  "login e b d sess =
     (case loginSchema e b of
        Inl m \<Rightarrow> (respond 400 (message m), Some sess, d)
      | Inr data \<Rightarrow>
          (case getUserByEmail d (e_toLowerCase e (lb_email data)) of
             None \<Rightarrow>
               (respond 401 (message (js ''Email ou mot de passe incorrect'')), Some sess, d)
           | Some user \<Rightarrow>
               if u_isBanned user then (bannedResponse, Some sess, d)
               else if \<not> e_bcryptCompare e (lb_password data) (u_password user)
               then (respond 401 (message (js ''Email ou mot de passe incorrect'')), Some sess, d)
               else
                 let d' = snd (updateUser (u_id user) (\<lambda>u. u\<lparr>u_lastActive := e_now e\<rparr>) d)
                 in (respond 200 (JObj [(''user'', omit ''password'' (userJson user))]),
                     Some (sess\<lparr>s_userId := Some (u_id user)\<rparr>), d')))"

text \<open>\<^verbatim>\<open>POST /api/auth/logout\<close>\<close>

definition logout :: "db \<Rightarrow> session \<Rightarrow> result" where
  "logout d sess = (respond 200 (message (js ''D'' @ [233] @ js ''connexion r'' @ [233] @ js ''ussie'')), None, d)"

text \<open>\<^verbatim>\<open>GET /api/auth/me\<close>\<close>

definition me :: "db \<Rightarrow> session \<Rightarrow> result" where
  "me d sess =
     (case s_userId sess of
        None \<Rightarrow> (respond 401 (message (js ''Non authentifi'' @ [233])), Some sess, d)
      | Some uid \<Rightarrow>
          if uid = 0 then (respond 401 (message (js ''Non authentifi'' @ [233])), Some sess, d)
          else (case getUser d uid of
                  None \<Rightarrow> (respond 401 (message (js ''Utilisateur introuvable'')), None, d)
                | Some user \<Rightarrow>
                    (respond 200 (JObj [(''user'', omit ''password'' (userJson user))]),
                     Some sess, d)))"

text \<open>
  \<^verbatim>\<open>POST /api/threads\<close>. The body's \<open>title\<close> and \<open>content\<close> are strings or missing
  (\<open>sanitizeInput\<close> of a missing one throws, which the handler answers with 500), its
  \<open>categoryId\<close> a number or missing.
\<close>

definition createThreadRoute ::
  "env \<Rightarrow> jsstring option \<Rightarrow> jsstring option \<Rightarrow> int option \<Rightarrow> db \<Rightarrow> session \<Rightarrow> result" where
  "createThreadRoute e title content categoryId d sess =
     requireAuth d sess (\<lambda>uid.
       case getUser d uid of
         None \<Rightarrow> (respond 403 (message
           (js ''Les nouveaux utilisateurs ne peuvent pas cr'' @ [233] @ js ''er de discussions'')), Some sess, d)
       | Some user \<Rightarrow>
           if u_role user = NewUser
           then (respond 403 (message
             (js ''Les nouveaux utilisateurs ne peuvent pas cr'' @ [233] @ js ''er de discussions'')), Some sess, d)
           else
             let found = (case categoryId of None \<Rightarrow> None
                          | Some cid \<Rightarrow> find (\<lambda>c. c_id c = cid) (getCategories d));
                 slug = (case found of None \<Rightarrow> [] | Some c \<Rightarrow> c_slug c);
                 category = (case getCategoryBySlug d slug of Some c \<Rightarrow> Some c | None \<Rightarrow> found)
             in (case category of
                   None \<Rightarrow> (respond 400 (message (js ''Cat'' @ [233] @ js ''gorie invalide'')), Some sess, d)
                 | Some cat \<Rightarrow>
                     if c_isPrivate cat \<and> \<not> u_hasPrivateAccess user
                     then (respond 403 (message (js ''Acc'' @ [232] @ js ''s non autoris'' @ [233] @ js '' '' @ [224] @ js '' cette section'')),
                           Some sess, d)
                     else (case (title, content, categoryId) of
                             (Some ti, Some co, Some cid) \<Rightarrow>
                               (case createThread (e_now e) (sanitizeInput ti) (sanitizeInput co)
                                       cid (u_id user) d of
                                  (None, d') \<Rightarrow> (respond 500 (message
                                    (js ''Erreur lors de la cr'' @ [233] @ js ''ation de la discussion'')), Some sess, d')
                                | (Some thread, d') \<Rightarrow>
                                    (respond 201 (threadJson thread), Some sess, d'))
                           | _ \<Rightarrow> (respond 500 (message
                               (js ''Erreur lors de la cr'' @ [233] @ js ''ation de la discussion'')), Some sess, d))))"

text \<open>
  \<^verbatim>\<open>POST /api/threads/:id/posts\<close>. \<open>threadId\<close> is \<^verbatim>\<open>parseInt(req.params.id)\<close>, \<open>None\<close> when it
  is \<^verbatim>\<open>NaN\<close>; \<open>content\<close> is the body's string, \<open>None\<close> when missing.
\<close>

definition lockedResponse :: response where
  "lockedResponse = respond 403 (message (js ''Cette discussion est verrouill'' @ [233] @ js ''e''))"

definition createPostRoute ::
  "env \<Rightarrow> int option \<Rightarrow> jsstring option \<Rightarrow> db \<Rightarrow> session \<Rightarrow> result" where
  "createPostRoute e threadId content d sess =
     requireAuth d sess (\<lambda>uid.
       case threadId of
         None \<Rightarrow> (respond 400 (message (js ''ID invalide'')), Some sess, d)
       | Some tid \<Rightarrow>
           (case getUser d uid of
              None \<Rightarrow> (respond 403 (message
                (js ''Les nouveaux utilisateurs ne peuvent pas r'' @ [233] @ js ''pondre'')), Some sess, d)
            | Some user \<Rightarrow>
                if u_role user = NewUser
                then (respond 403 (message
                  (js ''Les nouveaux utilisateurs ne peuvent pas r'' @ [233] @ js ''pondre'')), Some sess, d)
                else (case getThread d tid of
                        None \<Rightarrow> (respond 404 (message (js ''Discussion introuvable'')), Some sess, d)
                      | Some thread \<Rightarrow>
                          if t_isLocked (tr_thread thread) then (lockedResponse, Some sess, d)
                          else if (case tr_category thread of None \<Rightarrow> False
                                   | Some c \<Rightarrow> c_isPrivate c) \<and> \<not> u_hasPrivateAccess user
                          then (respond 403 (message (js ''Acc'' @ [232] @ js ''s non autoris'' @ [233])), Some sess, d)
                          else (case content of
                                  None \<Rightarrow>
                                    (respond 400 (message (js ''Le contenu est requis'')), Some sess, d)
                                | Some co \<Rightarrow>
                                    if co = [] \<or> length (trim co) < 1
                                    then (respond 400 (message (js ''Le contenu est requis'')),
                                          Some sess, d)
                                    else (case createPost (e_now e) (sanitizeInput co) tid
                                                 (u_id user) None d of
                                            (None, d') \<Rightarrow> (respond 500 (message
                                              (js ''Erreur lors de la cr'' @ [233] @ js ''ation du message'')),
                                              Some sess, d')
                                          | (Some post, d') \<Rightarrow>
                                              (respond 201 (postJson post), Some sess, d'))))))"

text \<open>
  \<^verbatim>\<open>DELETE /api/posts/:id\<close>. \<open>postId\<close> is \<^verbatim>\<open>parseInt(req.params.id)\<close>, \<open>None\<close> when it is
  \<^verbatim>\<open>NaN\<close>. When it is a number outside the range of the id column, \<^verbatim>\<open>storage.deletePost\<close>
  throws at its first statement and the handler's \<^verbatim>\<open>catch\<close> answers 500: nothing is
  deleted and nothing logged.
\<close>

definition deletePostRoute :: "env \<Rightarrow> int option \<Rightarrow> db \<Rightarrow> session \<Rightarrow> result" where
  "deletePostRoute e postId d sess =
     requireRole [Admin, Moderator] d sess (\<lambda>uid.
       case postId of
         None \<Rightarrow> (respond 400 (message (js ''ID invalide'')), Some sess, d)
       | Some pid \<Rightarrow>
           if \<not> int4 pid
           then (respond 500 (message
             (js ''Erreur lors de la suppression du message'')), Some sess, d)
           else
             (case createModerationLog (e_now e) uid None DeletePostAction None
                     (Some ((js ''Post ID: '') @ showInt pid)) (deletePost pid d) of
                (None, d') \<Rightarrow> (respond 500 (message
                  (js ''Erreur lors de la suppression du message'')), Some sess, d')
              | (Some _, d') \<Rightarrow>
                  (respond 200 (message (js ''Message supprim'' @ [233])), Some sess, d')))"

text \<open>\<^verbatim>\<open>POST /api/private-invites\<close>. \<open>reason\<close> is the body's string, \<open>None\<close> when missing.\<close>

definition submitInvite :: "env \<Rightarrow> jsstring option \<Rightarrow> db \<Rightarrow> session \<Rightarrow> result" where
  "submitInvite e reason d sess =
     requireAuth d sess (\<lambda>uid.
       case getUser d uid of
         None \<Rightarrow> (respond 401 (message (js ''Utilisateur introuvable'')), Some sess, d)
       | Some user \<Rightarrow>
           if u_hasPrivateAccess user
           then (respond 400 (message (js ''Vous avez d'' @ [233] @ js ''j'' @ [224] @ js '' acc'' @ [232] @ js ''s'')), Some sess, d)
           else if (case getPrivateInviteByUser d (u_id user) of
                      None \<Rightarrow> False | Some existing \<Rightarrow> i_status existing = Pending)
           then (respond 400 (message (js ''Vous avez d'' @ [233] @ js ''j'' @ [224] @ js '' une demande en cours'')), Some sess, d)
           else (case reason of
                   None \<Rightarrow> (respond 400 (message
                     (js ''La raison doit contenir au moins 50 caract'' @ [232] @ js ''res'')), Some sess, d)
                 | Some r \<Rightarrow>
                     if r = [] \<or> length (trim r) < 50
                     then (respond 400 (message
                       (js ''La raison doit contenir au moins 50 caract'' @ [232] @ js ''res'')), Some sess, d)
                     else (case createPrivateInvite (e_now e) (u_id user) (sanitizeInput r) d of
                             (None, d') \<Rightarrow> (respond 500 (message
                               (js ''Erreur lors de la cr'' @ [233] @ js ''ation de la demande'')), Some sess, d')
                           | (Some invite, d') \<Rightarrow>
                               (respond 201 (inviteJson invite), Some sess, d'))))"

text \<open>\<^verbatim>\<open>GET /api/admin/users\<close>\<close>

definition adminUsers :: "db \<Rightarrow> session \<Rightarrow> result" where
  "adminUsers d sess =
     requireRole [Admin, Moderator] d sess (\<lambda>uid.
       (respond 200 (JArr (map (\<lambda>u. omit ''password'' (userJson u)) (getAllUsers d))),
        Some sess, d))"

text \<open>
  \<^verbatim>\<open>PATCH /api/admin/private-invites/:id\<close>. \<open>inviteId\<close> is \<^verbatim>\<open>parseInt(req.params.id)\<close>,
  which the handler does not test: with \<^verbatim>\<open>NaN\<close>, or with a number outside the range of
  the id column, the query fails and the handler answers 500. \<open>status\<close> is the body's
  string, \<open>None\<close> when missing.
\<close>

definition parseDecision :: "jsstring option \<Rightarrow> invite_status option" where
  "parseDecision status =
     (if status = Some (js ''approved'') then Some Approved
      else if status = Some (js ''rejected'') then Some Rejected
      else None)"

definition notFoundInvite :: response where
  "notFoundInvite = respond 404 (message (js ''Demande introuvable''))"

definition decideInvite ::
  "env \<Rightarrow> int option \<Rightarrow> jsstring option \<Rightarrow> db \<Rightarrow> session \<Rightarrow> result" where
  "decideInvite e inviteId status d sess =
     requireRole [Admin, Moderator] d sess (\<lambda>uid.
       case parseDecision status of
         None \<Rightarrow> (respond 400 (message (js ''Statut invalide'')), Some sess, d)
       | Some st \<Rightarrow>
           (case inviteId of
              None \<Rightarrow> (respond 500 (message
                (js ''Erreur lors de la mise '' @ [224] @ js '' jour de la demande'')), Some sess, d)
            | Some iid \<Rightarrow>
                (case updatePrivateInvite (e_now e) iid st uid d of
                   None \<Rightarrow> (respond 500 (message
                     (js ''Erreur lors de la mise '' @ [224] @ js '' jour de la demande'')), Some sess, d)
                 | Some (None, d') \<Rightarrow> (notFoundInvite, Some sess, d')
                 | Some (Some invite, d') \<Rightarrow>
                     (case createModerationLog (e_now e) uid (Some (i_userId invite))
                             (if st = Approved then ApproveInviteAction else RejectInviteAction)
                             None None d' of
                        (None, d'') \<Rightarrow> (respond 500 (message
                          (js ''Erreur lors de la mise '' @ [224] @ js '' jour de la demande'')), Some sess, d'')
                      | (Some _, d'') \<Rightarrow>
                          (respond 200 (inviteJson invite), Some sess, d'')))))"

text \<open>\<^verbatim>\<open>PATCH /api/admin/users/:id/role\<close>\<close>

definition parseRole :: "jsstring option \<Rightarrow> role option" where
  "parseRole r =
     (if r = Some (js ''new_user'') then Some NewUser
      else if r = Some (js ''member'') then Some Member
      else if r = Some (js ''moderator'') then Some Moderator
      else if r = Some (js ''admin'') then Some Admin
      else None)"

definition setUserRole ::
  "env \<Rightarrow> int option \<Rightarrow> jsstring option \<Rightarrow> db \<Rightarrow> session \<Rightarrow> result" where
  "setUserRole e userId r d sess =
     requireRole [Admin] d sess (\<lambda>uid.
       case parseRole r of
         None \<Rightarrow> (respond 400 (message (js ''R'' @ [244] @ js ''le invalide'')), Some sess, d)
       | Some newRole \<Rightarrow>
           (case userId of
              None \<Rightarrow> (respond 500 (message
                (js ''Erreur lors de la mise '' @ [224] @ js '' jour du r'' @ [244] @ js ''le'')), Some sess, d)
            | Some target \<Rightarrow>
                (case updateUser target (\<lambda>u. u\<lparr>u_role := newRole\<rparr>) d of
                   (None, d') \<Rightarrow>
                     (respond 404 (message (js ''Utilisateur introuvable'')), Some sess, d')
                 | (Some user, d') \<Rightarrow>
                     (case createModerationLog (e_now e) uid (Some target) WarnUserAction None
                             (Some ((js ''R'' @ [244] @ js ''le chang'' @ [233] @ js '' en: '') @ roleName newRole)) d' of
                        (None, d'') \<Rightarrow> (respond 500 (message
                          (js ''Erreur lors de la mise '' @ [224] @ js '' jour du r'' @ [244] @ js ''le'')), Some sess, d'')
                      | (Some _, d'') \<Rightarrow>
                          (respond 200 (omit ''password'' (userJson user)), Some sess, d'')))))"

text \<open>
  \<^verbatim>\<open>POST /api/admin/users/:id/ban\<close>. \<open>reason\<close> is the body's string; when it is missing
  the update leaves \<open>banReason\<close> as it was and the log entry has no reason.
\<close>

definition banUser ::
  "env \<Rightarrow> int option \<Rightarrow> jsstring option \<Rightarrow> db \<Rightarrow> session \<Rightarrow> result" where
  "banUser e userId reason d sess =
     requireRole [Admin] d sess (\<lambda>uid.
       case userId of
         None \<Rightarrow> (respond 500 (message (js ''Erreur lors du bannissement'')), Some sess, d)
       | Some target \<Rightarrow>
           (case updateUser target (\<lambda>u. u\<lparr>u_isBanned := True,
                     u_banReason := (case reason of None \<Rightarrow> u_banReason u | Some x \<Rightarrow> Some x)\<rparr>) d of
              (None, d') \<Rightarrow> (respond 404 (message (js ''Utilisateur introuvable'')), Some sess, d')
            | (Some user, d') \<Rightarrow>
                (case createModerationLog (e_now e) uid (Some target) BanUserAction reason
                        None d' of
                   (None, d'') \<Rightarrow>
                     (respond 500 (message (js ''Erreur lors du bannissement'')), Some sess, d'')
                 | (Some _, d'') \<Rightarrow>
                     (respond 200 (omit ''password'' (userJson user)), Some sess, d''))))"

section \<open>The application\<close>

text \<open>
  \<^verbatim>\<open>registerRoutes\<close> installs, in this order: the session middleware, the two rate
  limiters, \<open>checkBanned\<close>, \<open>csrfProtection\<close>, and the routes. \<open>apiChain\<close> is what a request
  goes through once its session is loaded; the route it reaches is \<open>handler\<close>.
  \<open>csrfProtection\<close> is mounted on \<^verbatim>\<open>/api\<close>, where every route of the file lives. The rate
  limiters keep counts per address and are left out.
\<close>

definition apiChain ::
  "jsstring \<Rightarrow> http_method \<Rightarrow> jsstring option \<Rightarrow> (db \<Rightarrow> session \<Rightarrow> result)
     \<Rightarrow> db \<Rightarrow> session \<Rightarrow> result" where
  "apiChain fresh method clientToken handler d sess =
     checkBanned d sess (\<lambda>s1.
       csrfProtection fresh method clientToken d s1 (\<lambda>s2. handler d s2))"

text \<open>
  The server: the database and the session store. A request carries its method, the
  session id of its cookie and the \<^verbatim>\<open>x-csrf-token\<close> header. \<^verbatim>\<open>express-session\<close> loads the
  session the cookie names, or starts an empty one under a new id (\<open>freshSid\<close>, the
  random id it generates, which names no stored session); when the response is sent it
  stores the session, unless it was destroyed, or is new and was never written to
  (\<^verbatim>\<open>saveUninitialized: false\<close>).
\<close>

type_synonym sid = jsstring

record server =
  sv_db :: db
  sv_sessions :: "sid \<Rightarrow> session option"

record request =
  q_method :: http_method
  q_cookie :: "sid option"
  q_csrfToken :: "jsstring option"

definition loadSession :: "server \<Rightarrow> request \<Rightarrow> (sid \<times> session) option" where
  "loadSession sv req =
     (case q_cookie req of
        None \<Rightarrow> None
      | Some c \<Rightarrow> (case sv_sessions sv c of None \<Rightarrow> None | Some s \<Rightarrow> Some (c, s)))"

definition handleRequest ::
  "sid \<Rightarrow> jsstring \<Rightarrow> (db \<Rightarrow> session \<Rightarrow> result) \<Rightarrow> server \<Rightarrow> request \<Rightarrow> response \<times> server" where
  "handleRequest freshSid fresh handler sv req =
     (let loaded = loadSession sv req;
          ident = (case loaded of None \<Rightarrow> freshSid | Some (c, s) \<Rightarrow> c);
          sess = (case loaded of None \<Rightarrow> emptySession | Some (c, s) \<Rightarrow> s)
      in (case apiChain fresh (q_method req) (q_csrfToken req) handler (sv_db sv) sess of
            (res, None, d') \<Rightarrow>
              (res, \<lparr>sv_db = d', sv_sessions = (sv_sessions sv)(ident := None)\<rparr>)
          | (res, Some sess', d') \<Rightarrow>
              (res, \<lparr>sv_db = d',
                     sv_sessions = (if loaded = None \<and> sess' = emptySession
                                    then sv_sessions sv
                                    else (sv_sessions sv)(ident \<mapsto> sess'))\<rparr>)))"

text \<open>The routes of the model, each with the method it is registered under.\<close>

datatype endpoint =
    CsrfTokenEP
  | RegisterEP registerBody
  | LoginEP loginBody
  | LogoutEP
  | MeEP
  | CreateThreadEP "jsstring option" "jsstring option" "int option"
  | CreatePostEP "int option" "jsstring option"
  | DeletePostEP "int option"
  | SubmitInviteEP "jsstring option"
  | AdminUsersEP
  | DecideInviteEP "int option" "jsstring option"
  | SetUserRoleEP "int option" "jsstring option"
  | BanUserEP "int option" "jsstring option"

fun methodOf :: "endpoint \<Rightarrow> http_method" where
  "methodOf CsrfTokenEP = GET"
| "methodOf (RegisterEP b) = POST"
| "methodOf (LoginEP b) = POST"
| "methodOf LogoutEP = POST"
| "methodOf MeEP = GET"
| "methodOf (CreateThreadEP t c k) = POST"
| "methodOf (CreatePostEP i c) = POST"
| "methodOf (DeletePostEP i) = DELETE"
| "methodOf (SubmitInviteEP r) = POST"
| "methodOf AdminUsersEP = GET"
| "methodOf (DecideInviteEP i s) = PATCH"
| "methodOf (SetUserRoleEP i r) = PATCH"
| "methodOf (BanUserEP i r) = POST"

fun route :: "env \<Rightarrow> jsstring \<Rightarrow> endpoint \<Rightarrow> db \<Rightarrow> session \<Rightarrow> result" where
  "route e fresh CsrfTokenEP = getCsrfToken fresh"
| "route e fresh (RegisterEP b) = register e b"
| "route e fresh (LoginEP b) = login e b"
| "route e fresh LogoutEP = logout"
| "route e fresh MeEP = me"
| "route e fresh (CreateThreadEP t c k) = createThreadRoute e t c k"
| "route e fresh (CreatePostEP i c) = createPostRoute e i c"
| "route e fresh (DeletePostEP i) = deletePostRoute e i"
| "route e fresh (SubmitInviteEP r) = submitInvite e r"
| "route e fresh AdminUsersEP = adminUsers"
| "route e fresh (DecideInviteEP i s) = decideInvite e i s"
| "route e fresh (SetUserRoleEP i r) = setUserRole e i r"
| "route e fresh (BanUserEP i r) = banUser e i r"

definition serve ::
  "env \<Rightarrow> sid \<Rightarrow> jsstring \<Rightarrow> server \<Rightarrow> sid option \<Rightarrow> jsstring option \<Rightarrow> endpoint
     \<Rightarrow> response \<times> server" where
  "serve e freshSid fresh sv cookie clientToken ep =
     handleRequest freshSid fresh (route e fresh ep) sv
       \<lparr>q_method = methodOf ep, q_cookie = cookie, q_csrfToken = clientToken\<rparr>"

section \<open>A small forum\<close>

text \<open>
  The states the examples below run on: the two accounts and a category of
  \<^verbatim>\<open>server/seed.ts\<close>, three more accounts, then a thread by alice and a reply by bob.
\<close>

definition admin :: user where
  "admin = \<lparr>u_id = 1, u_username = js ''admin'', u_email = js ''admin@arraw-tllelli.com'',
     u_password = js ''hash-admin'', u_role = Admin, u_avatar = None, u_bio = None,
     u_postCount = 0, u_threadCount = 0, u_isBanned = False, u_banReason = None,
     u_hasPrivateAccess = True, u_createdAt = 1, u_lastActive = 1\<rparr>"

definition moderateur :: user where
  "moderateur = \<lparr>u_id = 2, u_username = js ''moderateur'', u_email = js ''mod@arraw-tllelli.com'',
     u_password = js ''hash-mod'', u_role = Moderator, u_avatar = None, u_bio = None,
     u_postCount = 0, u_threadCount = 0, u_isBanned = False, u_banReason = None,
     u_hasPrivateAccess = True, u_createdAt = 2, u_lastActive = 2\<rparr>"

definition alice :: user where
  "alice = \<lparr>u_id = 3, u_username = js ''alice'', u_email = js ''alice@example.org'',
     u_password = js ''hash-alice'', u_role = Member, u_avatar = None, u_bio = None,
     u_postCount = 0, u_threadCount = 0, u_isBanned = False, u_banReason = None,
     u_hasPrivateAccess = False, u_createdAt = 3, u_lastActive = 3\<rparr>"

definition bob :: user where
  "bob = \<lparr>u_id = 4, u_username = js ''bob'', u_email = js ''bob@example.org'',
     u_password = js ''hash-bob'', u_role = Member, u_avatar = None, u_bio = None,
     u_postCount = 0, u_threadCount = 0, u_isBanned = False, u_banReason = None,
     u_hasPrivateAccess = False, u_createdAt = 4, u_lastActive = 4\<rparr>"

definition newbie :: user where
  "newbie = \<lparr>u_id = 5, u_username = js ''newbie'', u_email = js ''newbie@example.org'',
     u_password = js ''hash-newbie'', u_role = NewUser, u_avatar = None, u_bio = None,
     u_postCount = 0, u_threadCount = 0, u_isBanned = False, u_banReason = None,
     u_hasPrivateAccess = False, u_createdAt = 5, u_lastActive = 5\<rparr>"

definition general :: category where
  "general = \<lparr>c_id = 1, c_name = js ''Discussion'', c_description = None,
     c_slug = js ''discussion-generale'', c_icon = None, c_sortOrder = 1, c_isPrivate = False,
     c_threadCount = 0, c_postCount = 0\<rparr>"

definition forumDb :: db where
  "forumDb = emptyDb\<lparr>users := [admin, moderateur, alice, bob, newbie],
     categories := [general], nextUserId := 6\<rparr>"

definition thread1 :: thread where
  "thread1 = \<lparr>t_id = 1, t_title = js ''T1'', t_content = js ''hello'', t_categoryId = 1,
     t_authorId = 3, t_isPinned = False, t_isLocked = False, t_viewCount = 0, t_replyCount = 0,
     t_lastReplyAt = None, t_lastReplyById = None, t_createdAt = 10, t_updatedAt = 10\<rparr>"

definition post1 :: post where
  "post1 = \<lparr>p_id = 1, p_content = js ''reply'', p_threadId = 1, p_authorId = 4,
     p_parentId = None, p_isEdited = False, p_createdAt = 20, p_updatedAt = 20\<rparr>"

definition afterThread :: db where
  "afterThread = snd (createThread 10 (js ''T1'') (js ''hello'') 1 3 forumDb)"

definition afterPost :: db where
  "afterPost = snd (createPost 20 (js ''reply'') 1 4 None afterThread)"

definition lockedDb :: db where
  "lockedDb = snd (updateThread 30 1 (\<lambda>t. t\<lparr>t_isLocked := True\<rparr>) afterPost)"

text \<open>
  The outside world of the examples: a clock at 100, and stand-ins for the library
  functions (a hash that prefixes, an e-mail test that looks for the at sign, ASCII
  lower-casing). A session bound to user \<open>uid\<close> carries the token \<open>token\<close>.
\<close>

definition env0 :: env where
  "env0 = \<lparr>e_now = 100,
     e_bcryptHash = (\<lambda>p. js ''hash-'' @ p),
     e_bcryptCompare = (\<lambda>p h. h = js ''hash-'' @ p),
     e_isEmail = (\<lambda>s. 64 \<in> set s),
     e_toLowerCase = map (\<lambda>c. if 65 \<le> c \<and> c \<le> 90 then c + 32 else c)\<rparr>"

definition sessionOf :: "int \<Rightarrow> session" where
  "sessionOf uid = \<lparr>s_userId = Some uid, s_csrfToken = Some (js ''token'')\<rparr>"

text \<open>Alice asks for access to the private section; the moderator rejects the request.\<close>

definition justification :: jsstring where
  "justification = js ''I would like to read and write in the private section.''"

definition invite1 :: privateInvite where
  "invite1 = \<lparr>i_id = 1, i_userId = 3, i_reason = justification, i_status = Pending,
     i_reviewedById = None, i_reviewedAt = None, i_createdAt = 100\<rparr>"

definition inviteDb :: db where
  "inviteDb = snd (snd (submitInvite env0 (Some justification) forumDb (sessionOf 3)))"

definition rejectedDb :: db where
  "rejectedDb =
     snd (snd (decideInvite env0 (Some 1) (Some (js ''rejected'')) inviteDb (sessionOf 2)))"

text \<open>
  The forum as a server, with the administrator and bob logged in; then the
  administrator bans bob.
\<close>

definition server0 :: server where
  "server0 = \<lparr>sv_db = forumDb,
     sv_sessions = (\<lambda>c. if c = js ''sid-admin'' then Some (sessionOf 1)
                        else if c = js ''sid-bob'' then Some (sessionOf 4) else None)\<rparr>"

definition bannedServer :: server where
  "bannedServer = snd (serve env0 (js ''sid-new'') (js ''fresh'') server0 (Some (js ''sid-admin''))
     (Some (js ''token'')) (BanUserEP (Some 4) (Some (js ''spam''))))"

section \<open>Sanitization\<close>

lemma replaceAll_absent: "c \<notin> set s \<Longrightarrow> replaceAll c r s = s"
  by (induction s) (auto simp: replaceAll_def)

lemma set_replaceAll:
  "set (replaceAll c r s) = (set s - {c}) \<union> (if c \<in> set s then set r else {})"
  by (induction s) (auto simp: replaceAll_def)

lemma set_trim: "set (trim s) \<subseteq> set s"
proof
  fix x
  assume "x \<in> set (trim s)"
  then have "x \<in> set (dropWhile isWhiteSpace (rev (dropWhile isWhiteSpace s)))"
    by (simp add: trim_def)
  then have "x \<in> set (rev (dropWhile isWhiteSpace s))"
    by (rule set_dropWhileD)
  then have "x \<in> set (dropWhile isWhiteSpace s)"
    by simp
  then show "x \<in> set s"
    by (rule set_dropWhileD)
qed

lemma trim_idem: "trim (trim s) = trim s"
proof -
  define ys where "ys = dropWhile isWhiteSpace s"
  define zs where "zs = dropWhile isWhiteSpace (rev ys)"
  have front: "dropWhile isWhiteSpace (rev zs) = rev zs"
  proof (cases "zs = []")
    case True
    then show ?thesis by simp
  next
    case False
    then obtain z zs' where zs: "zs = z # zs'"
      by (cases zs) auto
    have "\<exists>pre. rev ys = pre @ zs"
      unfolding zs_def by (metis takeWhile_dropWhile_id)
    then obtain pre where pre: "rev ys = pre @ zs" ..
    then have ys: "ys = rev zs @ rev pre"
      by (metis rev_append rev_rev_ident)
    have "rev zs \<noteq> []" using False by simp
    then have "hd ys = hd (rev zs)" using ys by simp
    moreover have "ys \<noteq> []" using ys False by simp
    then have "\<not> isWhiteSpace (hd ys)"
      unfolding ys_def by (rule hd_dropWhile)
    ultimately show ?thesis
      using \<open>rev zs \<noteq> []\<close> by (simp add: dropWhile_eq_self_iff)
  qed
  have "trim (trim s) = rev (dropWhile isWhiteSpace (rev (dropWhile isWhiteSpace (rev zs))))"
    by (simp add: trim_def ys_def zs_def)
  also have "\<dots> = rev (dropWhile isWhiteSpace zs)"
    by (simp add: front)
  also have "\<dots> = rev zs"
    by (simp add: zs_def)
  also have "\<dots> = trim s"
    by (simp add: trim_def ys_def zs_def)
  finally show ?thesis .
qed

lemma sanitizeInput_no_special:
  "60 \<notin> set (sanitizeInput s) \<and> 62 \<notin> set (sanitizeInput s)
   \<and> 34 \<notin> set (sanitizeInput s) \<and> 39 \<notin> set (sanitizeInput s)"
proof -
  let ?r = "replaceAll 39 (js ''&#x27;'') (replaceAll 34 (js ''&quot;'')
              (replaceAll 62 (js ''&gt;'') (replaceAll 60 (js ''&lt;'') s)))"
  have "60 \<notin> set ?r \<and> 62 \<notin> set ?r \<and> 34 \<notin> set ?r \<and> 39 \<notin> set ?r"
    by (auto simp: set_replaceAll js_def split: if_splits)
  moreover have "set (sanitizeInput s) \<subseteq> set ?r"
    unfolding sanitizeInput_def by (rule set_trim)
  ultimately show ?thesis by blast
qed

text \<open>
  Claim C9. Sanitizing twice is sanitizing once: the output of \<open>sanitizeInput\<close> holds none
  of the four characters it replaces, so the second pass replaces nothing, and trimming a
  trimmed string changes nothing.
\<close>

theorem sanitizeInput_idempotent:
  "sanitizeInput (sanitizeInput s) = sanitizeInput s"
proof -
  let ?t = "sanitizeInput s"
  have free: "60 \<notin> set ?t" "62 \<notin> set ?t" "34 \<notin> set ?t" "39 \<notin> set ?t"
    using sanitizeInput_no_special [of s] by simp_all
  have "sanitizeInput ?t = trim ?t"
    unfolding sanitizeInput_def [of ?t] by (simp add: replaceAll_absent free)
  also have "\<dots> = ?t"
    unfolding sanitizeInput_def [of s] by (rule trim_idem)
  finally show ?thesis .
qed

section \<open>Counters and the last reply\<close>

lemma afterThread_eq:
  "afterThread = forumDb\<lparr>users := [admin, moderateur, alice\<lparr>u_threadCount := 1\<rparr>, bob, newbie],
     categories := [general\<lparr>c_threadCount := 1\<rparr>], threads := [thread1], nextThreadId := 2\<rparr>"
  by (simp add: afterThread_def forumDb_def createThread_def updateCategoryStats_def getUser_def
      emptyDb_def admin_def moderateur_def alice_def bob_def newbie_def general_def thread1_def
      Let_def js_def)

lemma afterPost_eq:
  "afterPost = forumDb\<lparr>
     users := [admin, moderateur, alice\<lparr>u_threadCount := 1\<rparr>, bob\<lparr>u_postCount := 1\<rparr>, newbie],
     categories := [general\<lparr>c_threadCount := 1, c_postCount := 1\<rparr>],
     threads := [thread1\<lparr>t_replyCount := 1, t_lastReplyAt := Some 20, t_lastReplyById := Some 4\<rparr>],
     posts := [post1], nextThreadId := 2, nextPostId := 2\<rparr>"
  by (simp add: afterPost_def afterThread_eq forumDb_def createPost_def updateCategoryStats_def
      getUser_def emptyDb_def admin_def moderateur_def alice_def bob_def newbie_def general_def
      thread1_def post1_def Let_def js_def)

lemma deletePost_afterPost:
  "deletePost 1 afterPost = forumDb\<lparr>
     users := [admin, moderateur, alice\<lparr>u_threadCount := 1\<rparr>, bob\<lparr>u_postCount := 1\<rparr>, newbie],
     categories := [general\<lparr>c_threadCount := 1, c_postCount := 0\<rparr>],
     threads := [thread1\<lparr>t_replyCount := 0, t_lastReplyAt := Some 20, t_lastReplyById := Some 4\<rparr>],
     posts := [], nextThreadId := 2, nextPostId := 2\<rparr>"
  by (simp add: afterPost_eq forumDb_def deletePost_def updateCategoryStats_def
      emptyDb_def general_def thread1_def post1_def Let_def)

lemma deleteThread_afterPost:
  "deleteThread 1 afterPost = forumDb\<lparr>
     users := [admin, moderateur, alice\<lparr>u_threadCount := 1\<rparr>, bob\<lparr>u_postCount := 1\<rparr>, newbie],
     categories := [general\<lparr>c_threadCount := 0, c_postCount := 0\<rparr>],
     threads := [], posts := [], nextThreadId := 2, nextPostId := 2\<rparr>"
  by (simp add: afterPost_eq forumDb_def deleteThread_def getThread_def updateCategoryStats_def
      emptyDb_def general_def thread1_def post1_def Let_def)

lemma threads_updateCategoryStats [simp]: "threads (updateCategoryStats c d) = threads d"
  by (simp add: updateCategoryStats_def Let_def)

lemma users_updateCategoryStats [simp]: "users (updateCategoryStats c d) = users d"
  by (simp add: updateCategoryStats_def Let_def)

lemma posts_updateCategoryStats [simp]: "posts (updateCategoryStats c d) = posts d"
  by (simp add: updateCategoryStats_def Let_def)

text \<open>
  \<open>deletePost\<close> writes \<open>replyCount\<close> and nothing else of a thread: whatever post is
  deleted, every thread keeps the \<open>lastReplyAt\<close> and \<open>lastReplyById\<close> it had.
\<close>

lemma deletePost_keeps_lastReply:
  "map t_lastReplyById (threads (deletePost i d)) = map t_lastReplyById (threads d)
   \<and> map t_lastReplyAt (threads (deletePost i d)) = map t_lastReplyAt (threads d)"
  by (auto simp: deletePost_def Let_def split: list.splits)

text \<open>\<open>deletePost\<close> and \<open>deleteThread\<close> write no row of \<open>users\<close>.\<close>

lemma delete_keeps_users:
  "users (deletePost i d) = users d \<and> users (deleteThread i d) = users d"
  by (auto simp: deletePost_def deleteThread_def Let_def split: list.splits option.splits)

text \<open>The moderator deletes the reply through \<^verbatim>\<open>DELETE /api/posts/1\<close>.\<close>

lemma getUser_afterPost_2: "getUser afterPost 2 = Some moderateur"
  by (simp add: afterPost_eq forumDb_def getUser_def admin_def moderateur_def)

lemma deletePostRoute_afterPost:
  "deletePostRoute env0 (Some 1) afterPost (sessionOf 2) =
     (respond 200 (message (js ''Message supprim'' @ [233])), Some (sessionOf 2),
      (deletePost 1 afterPost)\<lparr>
        moderationLogs := [\<lparr>l_id = 1, l_moderatorId = 2, l_targetUserId = None,
          l_action = DeletePostAction, l_reason = None,
          l_details = Some (js ''Post ID: '' @ showInt 1), l_createdAt = 100\<rparr>],
        nextLogId := 2\<rparr>)"
proof -
  have u: "getUser (deletePost 1 afterPost) 2 = Some moderateur"
    using getUser_afterPost_2 by (simp add: getUser_def delete_keeps_users)
  have l: "moderationLogs (deletePost 1 afterPost) = []" "nextLogId (deletePost 1 afterPost) = 1"
    by (simp_all add: deletePost_afterPost forumDb_def emptyDb_def)
  show ?thesis
    by (simp add: deletePostRoute_def requireRole_def sessionOf_def getUser_afterPost_2
        moderateur_def createModerationLog_def u l env0_def Let_def int4_def)
qed

text \<open>
  Claim C2 (\<open>lastReplyAt\<close> and \<open>lastReplyBy\<close> identify the latest remaining post, or are
  null when none remains). The code does not keep this: alice opens a thread, bob
  replies at time 20, a moderator deletes the reply. The thread has no post left, and
  its \<open>lastReplyById\<close> is still bob (user 4) and its \<open>lastReplyAt\<close> still 20, after
  \<open>deletePost\<close> and so after the request that calls it.
\<close>

theorem deletePost_leaves_lastReply_stale:
  "posts (deletePost 1 afterPost) = []
   \<and> map t_lastReplyById (threads (deletePost 1 afterPost)) = [Some 4]
   \<and> map t_lastReplyAt (threads (deletePost 1 afterPost)) = [Some 20]
   \<and> r_status (fst (deletePostRoute env0 (Some 1) afterPost (sessionOf 2))) = 200
   \<and> posts (snd (snd (deletePostRoute env0 (Some 1) afterPost (sessionOf 2)))) = []
   \<and> map t_lastReplyById
        (threads (snd (snd (deletePostRoute env0 (Some 1) afterPost (sessionOf 2))))) = [Some 4]
   \<and> map t_lastReplyAt
        (threads (snd (snd (deletePostRoute env0 (Some 1) afterPost (sessionOf 2))))) = [Some 20]"
  by (simp add: deletePostRoute_afterPost respond_def) (simp add: deletePost_afterPost)

text \<open>
  Claim C3 (\<open>threadCount\<close> and \<open>postCount\<close> of a user count the user's live threads and
  posts). The code does not keep this: after the same steps no post is left and bob's
  \<open>postCount\<close> is still 1; and when the thread is deleted instead, no thread and no post
  is left, alice's \<open>threadCount\<close> is still 1 and bob's \<open>postCount\<close> still 1.
\<close>

theorem delete_leaves_user_counts:
  "posts (deletePost 1 afterPost) = []
   \<and> map u_postCount (users (deletePost 1 afterPost)) = [0, 0, 0, 1, 0]
   \<and> posts (snd (snd (deletePostRoute env0 (Some 1) afterPost (sessionOf 2)))) = []
   \<and> map u_postCount
        (users (snd (snd (deletePostRoute env0 (Some 1) afterPost (sessionOf 2)))))
       = [0, 0, 0, 1, 0]
   \<and> threads (deleteThread 1 afterPost) = [] \<and> posts (deleteThread 1 afterPost) = []
   \<and> map u_threadCount (users (deleteThread 1 afterPost)) = [0, 0, 1, 0, 0]
   \<and> map u_postCount (users (deleteThread 1 afterPost)) = [0, 0, 0, 1, 0]"
  by (simp add: deletePostRoute_afterPost)
    (simp add: deletePost_afterPost deleteThread_afterPost admin_def moderateur_def alice_def
      bob_def newbie_def)

section \<open>Posting and deleting posts\<close>

lemma lockedDb_eq:
  "lockedDb = afterPost\<lparr>threads := [thread1\<lparr>t_replyCount := 1, t_lastReplyAt := Some 20,
       t_lastReplyById := Some 4, t_isLocked := True, t_updatedAt := 30\<rparr>]\<rparr>"
  by (simp add: lockedDb_def afterPost_eq updateThread_def Let_def thread1_def)

text \<open>
  Claim C8, as the code has it. The handler looks at the role before it looks at the
  thread: on a locked thread a user of any role above \<open>new_user\<close> (member, moderator,
  administrator) is answered \<open>Locked\<close>, a \<open>new_user\<close> is answered the refusal for new
  users; in both cases the database and the session are as they were.
\<close>

theorem createPost_locked:
  assumes "s_userId sess = Some uid" and "uid \<noteq> 0" and "getUser d uid = Some user"
    and "getThread d tid = Some thread" and "t_isLocked (tr_thread thread)"
  shows "createPostRoute e (Some tid) content d sess =
     (if u_role user = NewUser
      then respond 403 (message (js ''Les nouveaux utilisateurs ne peuvent pas r'' @ [233]
             @ js ''pondre''))
      else lockedResponse, Some sess, d)"
  using assms by (simp add: createPostRoute_def requireAuth_def)

lemma getUser_lockedDb_5: "getUser lockedDb 5 = Some newbie"
  by (simp add: lockedDb_eq afterPost_eq forumDb_def getUser_def admin_def moderateur_def
      alice_def bob_def newbie_def)

lemma getUser_lockedDb_2: "getUser lockedDb 2 = Some moderateur"
  by (simp add: lockedDb_eq afterPost_eq forumDb_def getUser_def admin_def moderateur_def)

lemma getThread_lockedDb_1:
  "map_option (\<lambda>t. t_isLocked (tr_thread t)) (getThread lockedDb 1) = Some True"
  by (simp add: lockedDb_eq afterPost_eq forumDb_def getThread_def thread1_def)

text \<open>
  Claim C8 as stated (\<open>Locked\<close> whatever the role) fails for a \<open>new_user\<close>: thread 1 is
  locked, newbie has the role \<open>new_user\<close>, and the answer is not the \<open>Locked\<close> one.
\<close>

theorem createPost_locked_newUser_counterexample:
  "map t_isLocked (threads lockedDb) = [True]
   \<and> getUser lockedDb 5 = Some newbie \<and> u_role newbie = NewUser
   \<and> fst (createPostRoute env0 (Some 1) (Some (js ''hello'')) lockedDb (sessionOf 5))
       \<noteq> lockedResponse"
  by (simp add: getThread_lockedDb_1 getUser_lockedDb_5 createPostRoute_def requireAuth_def
      sessionOf_def newbie_def lockedResponse_def respond_def message_def js_def)
    (simp add: lockedDb_eq thread1_def)

text \<open>An instance for claim C8: the moderator of the small forum posts on the locked thread.\<close>

theorem createPost_locked_witness:
  "createPostRoute env0 (Some 1) (Some (js ''hello'')) lockedDb (sessionOf 2) =
     (lockedResponse, Some (sessionOf 2), lockedDb)"
proof -
  obtain th where th: "getThread lockedDb 1 = Some th" "t_isLocked (tr_thread th)"
    using getThread_lockedDb_1 by (cases "getThread lockedDb 1") auto
  have "s_userId (sessionOf 2) = Some 2" by (simp add: sessionOf_def)
  from createPost_locked [OF this _ getUser_lockedDb_2 th, of env0 "Some (js ''hello'')"]
  show ?thesis by (simp add: moderateur_def)
qed

lemma deletePost_absent: "find (\<lambda>p. p_id p = pid) (posts d) = None \<Longrightarrow> deletePost pid d = d"
  by (simp add: deletePost_def find_None_iff filter_empty_conv)

lemma posts_deletePost: "posts (deletePost pid d) = filter (\<lambda>p. p_id p \<noteq> pid) (posts d)"
proof (cases "filter (\<lambda>p. p_id p = pid) (posts d)")
  case Nil
  then have "\<forall>p\<in>set (posts d). p_id p \<noteq> pid"
    by (simp add: filter_empty_conv)
  then have "filter (\<lambda>p. p_id p \<noteq> pid) (posts d) = posts d"
    by simp
  with Nil show ?thesis by (simp add: deletePost_def)
next
  case (Cons a list)
  then show ?thesis by (auto simp: deletePost_def Let_def split: list.splits)
qed

lemma logs_deletePost:
  "moderationLogs (deletePost pid d) = moderationLogs d \<and> nextLogId (deletePost pid d) = nextLogId d"
  by (auto simp: deletePost_def updateCategoryStats_def Let_def split: list.splits)

lemma getUser_deletePost: "getUser (deletePost pid d) uid = getUser d uid"
  by (simp add: getUser_def delete_keeps_users)

text \<open>
  Claim C6, as the code has it. For a moderator or administrator and a post id within
  the range of the id column the handler always answers 200: it runs \<open>deletePost\<close>,
  appends a \<open>delete_post\<close> log entry and reports success. Afterwards no post has the
  given id; when none had it before, \<open>deletePost\<close> changed nothing. For a post id
  outside the range the query fails: the answer is 500 and the database is as it was.
\<close>

theorem deletePostRoute_outcome:
  assumes "s_userId sess = Some uid" and "uid \<noteq> 0" and "getUser d uid = Some user"
    and "u_role user = Admin \<or> u_role user = Moderator"
  shows "(int4 pid \<longrightarrow>
      deletePostRoute e (Some pid) d sess =
        (respond 200 (message (js ''Message supprim'' @ [233])), Some sess,
         (deletePost pid d)\<lparr>
           moderationLogs := moderationLogs d @
             [\<lparr>l_id = nextLogId d, l_moderatorId = uid, l_targetUserId = None,
               l_action = DeletePostAction, l_reason = None,
               l_details = Some (js ''Post ID: '' @ showInt pid), l_createdAt = e_now e\<rparr>],
           nextLogId := nextLogId d + 1\<rparr>)
      \<and> posts (deletePost pid d) = filter (\<lambda>p. p_id p \<noteq> pid) (posts d)
      \<and> (find (\<lambda>p. p_id p = pid) (posts d) = None \<longrightarrow> deletePost pid d = d))
    \<and> (\<not> int4 pid \<longrightarrow>
      deletePostRoute e (Some pid) d sess =
        (respond 500 (message (js ''Erreur lors de la suppression du message'')),
         Some sess, d))"
  using assms
  by (auto simp: deletePostRoute_def requireRole_def createModerationLog_def getUser_deletePost
      logs_deletePost posts_deletePost deletePost_absent Let_def)

text \<open>
  Claim C6 as stated (\<open>NotFound\<close> for an id that names no post) fails: the only post
  has id 1, the moderator deletes post 999, and the answer has status 200.
\<close>

theorem deletePostRoute_absent_counterexample:
  "map p_id (posts afterPost) = [1] \<and> int4 999
   \<and> r_status (fst (deletePostRoute env0 (Some 999) afterPost (sessionOf 2))) = 200
   \<and> posts (snd (snd (deletePostRoute env0 (Some 999) afterPost (sessionOf 2)))) = posts afterPost"
proof -
  have absent: "deletePost 999 afterPost = afterPost"
    by (simp add: deletePost_def afterPost_eq post1_def)
  show ?thesis
    by (simp add: deletePostRoute_def requireRole_def sessionOf_def getUser_afterPost_2 absent
        createModerationLog_def moderateur_def respond_def Let_def int4_def)
      (simp add: afterPost_eq post1_def)
qed

text \<open>
  An instance for claim C6: the moderator deletes the one post of the small forum, and
  then asks for post 2147483648, one past the range of the id column.
\<close>

theorem deletePostRoute_witness:
  "r_status (fst (deletePostRoute env0 (Some 1) afterPost (sessionOf 2))) = 200
   \<and> posts (snd (snd (deletePostRoute env0 (Some 1) afterPost (sessionOf 2)))) = []
   \<and> r_status (fst (deletePostRoute env0 (Some 2147483648) afterPost (sessionOf 2))) = 500
   \<and> snd (snd (deletePostRoute env0 (Some 2147483648) afterPost (sessionOf 2))) = afterPost"
proof -
  have s: "s_userId (sessionOf 2) = Some 2" by (simp add: sessionOf_def)
  have r: "u_role moderateur = Admin \<or> u_role moderateur = Moderator" by (simp add: moderateur_def)
  have i: "int4 1" "\<not> int4 2147483648" by (simp_all add: int4_def)
  from deletePostRoute_outcome [OF s _ getUser_afterPost_2 r, of 1 env0] i(1)
  have a: "r_status (fst (deletePostRoute env0 (Some 1) afterPost (sessionOf 2))) = 200
    \<and> posts (snd (snd (deletePostRoute env0 (Some 1) afterPost (sessionOf 2)))) = []"
    by (simp add: respond_def afterPost_eq post1_def)
  from deletePostRoute_outcome [OF s _ getUser_afterPost_2 r, of 2147483648 env0] i(2)
  have b: "r_status (fst (deletePostRoute env0 (Some 2147483648) afterPost (sessionOf 2))) = 500
    \<and> snd (snd (deletePostRoute env0 (Some 2147483648) afterPost (sessionOf 2))) = afterPost"
    by (simp add: respond_def)
  from a b show ?thesis by simp
qed

section \<open>Private-access requests\<close>

lemma find_map_same:
  "(\<And>y. P (f y) = P y) \<Longrightarrow> find P (map f xs) = map_option f (find P xs)"
  by (induction xs) auto

lemma getUser_grant:
  "getUser (d\<lparr>users := map (\<lambda>u. if Q u then u\<lparr>u_hasPrivateAccess := True\<rparr> else u) (users d)\<rparr>) k
     = map_option (\<lambda>u. if Q u then u\<lparr>u_hasPrivateAccess := True\<rparr> else u) (getUser d k)"
  unfolding getUser_def by (subst find_map_same [symmetric]) auto

lemma find_invite_decided:
  assumes "find (\<lambda>x. i_id x = iid) xs = Some i"
  shows "find (\<lambda>x. i_id x = iid)
           (map (\<lambda>x. if i_id x = iid
                      then x\<lparr>i_status := st, i_reviewedById := r, i_reviewedAt := t\<rparr> else x) xs)
         = Some (i\<lparr>i_status := st, i_reviewedById := r, i_reviewedAt := t\<rparr>)"
proof -
  have "find (\<lambda>x. i_id x = iid)
           (map (\<lambda>x. if i_id x = iid
                      then x\<lparr>i_status := st, i_reviewedById := r, i_reviewedAt := t\<rparr> else x) xs)
        = map_option (\<lambda>x. if i_id x = iid
                      then x\<lparr>i_status := st, i_reviewedById := r, i_reviewedAt := t\<rparr> else x)
            (find (\<lambda>x. i_id x = iid) xs)"
    by (rule find_map_same) simp
  moreover have "i_id i = iid"
    using assms by (auto simp: find_Some_iff)
  ultimately show ?thesis using assms by simp
qed

lemma int4_literals: "int4 1" "int4 7" "\<not> int4 2147483648"
  by (simp_all add: int4_def)

lemma updatePrivateInvite_range:
  "\<not> int4 iid \<Longrightarrow> updatePrivateInvite now iid st uid d = None"
  by (simp add: updatePrivateInvite_def)

lemma updatePrivateInvite_absent:
  "find (\<lambda>x. i_id x = iid) (privateInvites d) = None \<Longrightarrow> int4 iid
   \<Longrightarrow> updatePrivateInvite now iid st uid d = Some (None, d)"
  by (simp add: updatePrivateInvite_def)

lemma updatePrivateInvite_present:
  assumes "find (\<lambda>x. i_id x = iid) (privateInvites d) = Some i" and "getUser d uid \<noteq> None"
    and "int4 iid"
  shows "updatePrivateInvite now iid st uid d =
     Some (Some (i\<lparr>i_status := st, i_reviewedById := Some uid, i_reviewedAt := Some now\<rparr>),
       d\<lparr>privateInvites := map (\<lambda>x. if i_id x = iid
              then x\<lparr>i_status := st, i_reviewedById := Some uid, i_reviewedAt := Some now\<rparr>
              else x) (privateInvites d),
         users := map (\<lambda>u. if st = Approved \<and> u_id u = i_userId i
              then u\<lparr>u_hasPrivateAccess := True\<rparr> else u) (users d)\<rparr>)"
  using assms
  by (auto simp: updatePrivateInvite_def Let_def find_invite_decided)

lemma decideInvite_present:
  assumes "s_userId sess = Some uid" and "uid \<noteq> 0" and "getUser d uid = Some staff"
    and "u_role staff = Admin \<or> u_role staff = Moderator"
    and "parseDecision status = Some st"
    and "find (\<lambda>x. i_id x = iid) (privateInvites d) = Some i"
    and "getUser d (i_userId i) \<noteq> None"
    and "int4 iid"
  shows "decideInvite e (Some iid) status d sess =
     (respond 200 (inviteJson
        (i\<lparr>i_status := st, i_reviewedById := Some uid, i_reviewedAt := Some (e_now e)\<rparr>)),
      Some sess,
      d\<lparr>privateInvites := map (\<lambda>x. if i_id x = iid
              then x\<lparr>i_status := st, i_reviewedById := Some uid, i_reviewedAt := Some (e_now e)\<rparr>
              else x) (privateInvites d),
        users := map (\<lambda>u. if st = Approved \<and> u_id u = i_userId i
              then u\<lparr>u_hasPrivateAccess := True\<rparr> else u) (users d),
        moderationLogs := moderationLogs d @
          [\<lparr>l_id = nextLogId d, l_moderatorId = uid, l_targetUserId = Some (i_userId i),
            l_action = (if st = Approved then ApproveInviteAction else RejectInviteAction),
            l_reason = None, l_details = None, l_createdAt = e_now e\<rparr>],
        nextLogId := nextLogId d + 1\<rparr>)"
proof -
  have upd: "updatePrivateInvite (e_now e) iid st uid d =
     Some (Some (i\<lparr>i_status := st, i_reviewedById := Some uid, i_reviewedAt := Some (e_now e)\<rparr>),
       d\<lparr>privateInvites := map (\<lambda>x. if i_id x = iid
              then x\<lparr>i_status := st, i_reviewedById := Some uid, i_reviewedAt := Some (e_now e)\<rparr>
              else x) (privateInvites d),
         users := map (\<lambda>u. if st = Approved \<and> u_id u = i_userId i
              then u\<lparr>u_hasPrivateAccess := True\<rparr> else u) (users d)\<rparr>)"
    using assms(3,6,8) by (intro updatePrivateInvite_present) auto
  let ?d1 = "d\<lparr>privateInvites := map (\<lambda>x. if i_id x = iid
              then x\<lparr>i_status := st, i_reviewedById := Some uid, i_reviewedAt := Some (e_now e)\<rparr>
              else x) (privateInvites d),
         users := map (\<lambda>u. if st = Approved \<and> u_id u = i_userId i
              then u\<lparr>u_hasPrivateAccess := True\<rparr> else u) (users d)\<rparr>"
  have users: "getUser ?d1 k = map_option (\<lambda>u. if st = Approved \<and> u_id u = i_userId i
              then u\<lparr>u_hasPrivateAccess := True\<rparr> else u) (getUser d k)" for k
    using getUser_grant [of "\<lambda>u. st = Approved \<and> u_id u = i_userId i" d k]
    by (simp add: getUser_def)
  have "getUser ?d1 uid \<noteq> None" "getUser ?d1 (i_userId i) \<noteq> None"
    using assms(3,7) by (simp_all add: users)
  then have log: "createModerationLog (e_now e) uid (Some (i_userId i))
        (if st = Approved then ApproveInviteAction else RejectInviteAction) None None ?d1 =
      (Some \<lparr>l_id = nextLogId d, l_moderatorId = uid, l_targetUserId = Some (i_userId i),
            l_action = (if st = Approved then ApproveInviteAction else RejectInviteAction),
            l_reason = None, l_details = None, l_createdAt = e_now e\<rparr>,
       ?d1\<lparr>moderationLogs := moderationLogs d @
          [\<lparr>l_id = nextLogId d, l_moderatorId = uid, l_targetUserId = Some (i_userId i),
            l_action = (if st = Approved then ApproveInviteAction else RejectInviteAction),
            l_reason = None, l_details = None, l_createdAt = e_now e\<rparr>],
        nextLogId := nextLogId d + 1\<rparr>)"
    by (simp add: createModerationLog_def Let_def)
  show ?thesis
    using assms(1-5) by (simp add: decideInvite_def requireRole_def upd log)
qed

lemma decideInvite_absent:
  assumes "s_userId sess = Some uid" and "uid \<noteq> 0" and "getUser d uid = Some staff"
    and "u_role staff = Admin \<or> u_role staff = Moderator"
    and "parseDecision status = Some st"
    and "find (\<lambda>x. i_id x = iid) (privateInvites d) = None"
    and "int4 iid"
  shows "decideInvite e (Some iid) status d sess = (notFoundInvite, Some sess, d)"
  using assms by (auto simp: decideInvite_def requireRole_def updatePrivateInvite_absent)

lemma decideInvite_range:
  assumes "s_userId sess = Some uid" and "uid \<noteq> 0" and "getUser d uid = Some staff"
    and "u_role staff = Admin \<or> u_role staff = Moderator"
    and "parseDecision status = Some st"
    and "\<not> int4 iid"
  shows "decideInvite e (Some iid) status d sess =
     (respond 500 (message (js ''Erreur lors de la mise '' @ [224] @ js '' jour de la demande'')),
      Some sess, d)"
  using assms by (auto simp: decideInvite_def requireRole_def updatePrivateInvite_range)


lemma getUser_forumDb:
  "getUser forumDb 2 = Some moderateur" "getUser forumDb 3 = Some alice"
  by (simp_all add: forumDb_def getUser_def admin_def moderateur_def alice_def)

lemma sanitizeInput_justification: "sanitizeInput justification = justification"
  by (simp add: sanitizeInput_def justification_def replaceAll_def trim_def isWhiteSpace_def js_def)

text \<open>
  What the database makes of a text: a string with no surrogate and no U+0000 is stored
  as it is; a string is refused exactly when it holds U+0000, and sanitizing neither
  adds nor removes that character.
\<close>

lemma wellFormed_plain: "\<forall>x\<in>set s. x < 55296 \<or> 57343 < x \<Longrightarrow> wellFormed s = s"
  by (induction s rule: wellFormed.induct) auto

lemma pgText_plain:
  "0 \<notin> set s \<Longrightarrow> \<forall>x\<in>set s. x < 55296 \<or> 57343 < x \<Longrightarrow> pgText s = Some s"
  by (simp add: pgText_def wellFormed_plain)

lemma pgText_cases:
  "(0 \<in> set s \<longrightarrow> pgText s = None) \<and> (0 \<notin> set s \<longrightarrow> pgText s = Some (wellFormed s))"
  by (simp add: pgText_def)

lemma zero_dropWhile: "0 \<in> set (dropWhile isWhiteSpace s) \<longleftrightarrow> 0 \<in> set s"
  by (induction s) (auto simp: isWhiteSpace_def)

lemma zero_trim: "0 \<in> set (trim s) \<longleftrightarrow> 0 \<in> set s"
  by (simp add: trim_def zero_dropWhile)

lemma zero_sanitizeInput: "0 \<in> set (sanitizeInput s) \<longleftrightarrow> 0 \<in> set s"
  by (auto simp: sanitizeInput_def zero_trim set_replaceAll js_def split: if_splits)

lemma pgText_justification: "pgText justification = Some justification"
  by (rule pgText_plain) (simp_all add: justification_def js_def)

lemma length_trim_justification: "length (trim justification) = 54"
  by (simp add: justification_def trim_def isWhiteSpace_def js_def)

lemma inviteDb_eq: "inviteDb = forumDb\<lparr>privateInvites := [invite1], nextInviteId := 2\<rparr>"
proof -
  have none: "getPrivateInviteByUser forumDb 3 = None"
    by (simp add: getPrivateInviteByUser_def orderByDesc_def forumDb_def emptyDb_def)
  have nonempty: "justification \<noteq> []"
    by (simp add: justification_def js_def)
  show ?thesis
    by (simp add: inviteDb_def submitInvite_def requireAuth_def sessionOf_def getUser_forumDb
        alice_def none nonempty length_trim_justification sanitizeInput_justification
        pgText_justification createPrivateInvite_def Let_def env0_def invite1_def)
      (simp add: forumDb_def emptyDb_def)
qed

lemma getUser_inviteDb:
  "getUser inviteDb 2 = Some moderateur" "getUser inviteDb 3 = Some alice"
  using getUser_forumDb by (simp_all add: inviteDb_eq getUser_def)

lemma parseDecision_literals:
  "parseDecision (Some (js ''approved'')) = Some Approved"
  "parseDecision (Some (js ''rejected'')) = Some Rejected"
  by (simp_all add: parseDecision_def js_def)

lemma find_invite1: "find (\<lambda>x. i_id x = 1) (privateInvites inviteDb) = Some invite1"
  by (simp add: inviteDb_eq invite1_def)

lemma rejectedDb_eq:
  "rejectedDb = forumDb\<lparr>
     privateInvites := [invite1\<lparr>i_status := Rejected, i_reviewedById := Some 2,
        i_reviewedAt := Some 100\<rparr>],
     moderationLogs := [\<lparr>l_id = 1, l_moderatorId = 2, l_targetUserId = Some 3,
        l_action = RejectInviteAction, l_reason = None, l_details = None, l_createdAt = 100\<rparr>],
     nextInviteId := 2, nextLogId := 2\<rparr>"
proof -
  have s: "s_userId (sessionOf 2) = Some 2" by (simp add: sessionOf_def)
  have r: "u_role moderateur = Admin \<or> u_role moderateur = Moderator"
    by (simp add: moderateur_def)
  have t: "getUser inviteDb (i_userId invite1) \<noteq> None"
    by (simp add: invite1_def getUser_inviteDb)
  from decideInvite_present [OF s _ getUser_inviteDb(1) r parseDecision_literals(2) find_invite1 t
      int4_literals(1), of env0]
  show ?thesis
    by (simp add: rejectedDb_def)
      (simp add: inviteDb_eq forumDb_def emptyDb_def invite1_def env0_def)
qed

text \<open>
  Claim C1, as the code has it. \<open>updatePrivateInvite\<close> selects the request by its id
  alone. For a moderator or administrator and a valid outcome, with an id within the
  range of the id column: when no request has the id, the answer is \<open>NotFound\<close> and the
  database and session are as they were; when a request has the id, whatever its
  status, the decision is applied: status, reviewer and review time are overwritten,
  the requester is granted access when the outcome is \<open>approved\<close>, one log entry is
  appended, and the answer is 200 with the request. With an id outside the range the
  query fails: the answer is 500 and the database and session are as they were.
\<close>

theorem decideInvite_outcome:
  assumes "s_userId sess = Some uid" and "uid \<noteq> 0" and "getUser d uid = Some staff"
    and "u_role staff = Admin \<or> u_role staff = Moderator"
    and "parseDecision status = Some st"
  shows "(int4 iid \<and> find (\<lambda>x. i_id x = iid) (privateInvites d) = None \<longrightarrow>
            decideInvite e (Some iid) status d sess = (notFoundInvite, Some sess, d))
    \<and> (\<not> int4 iid \<longrightarrow>
            decideInvite e (Some iid) status d sess =
              (respond 500 (message (js ''Erreur lors de la mise '' @ [224]
                 @ js '' jour de la demande'')), Some sess, d))
    \<and> (\<forall>i. int4 iid \<and> find (\<lambda>x. i_id x = iid) (privateInvites d) = Some i
              \<and> getUser d (i_userId i) \<noteq> None \<longrightarrow>
            decideInvite e (Some iid) status d sess =
              (respond 200 (inviteJson
                 (i\<lparr>i_status := st, i_reviewedById := Some uid,
                    i_reviewedAt := Some (e_now e)\<rparr>)),
               Some sess,
               d\<lparr>privateInvites := map (\<lambda>x. if i_id x = iid
                       then x\<lparr>i_status := st, i_reviewedById := Some uid,
                              i_reviewedAt := Some (e_now e)\<rparr>
                       else x) (privateInvites d),
                 users := map (\<lambda>u. if st = Approved \<and> u_id u = i_userId i
                       then u\<lparr>u_hasPrivateAccess := True\<rparr> else u) (users d),
                 moderationLogs := moderationLogs d @
                   [\<lparr>l_id = nextLogId d, l_moderatorId = uid,
                     l_targetUserId = Some (i_userId i),
                     l_action = (if st = Approved then ApproveInviteAction
                                 else RejectInviteAction),
                     l_reason = None, l_details = None, l_createdAt = e_now e\<rparr>],
                 nextLogId := nextLogId d + 1\<rparr>))"
  using decideInvite_absent [OF assms] decideInvite_range [OF assms]
    decideInvite_present [OF assms]
  by blast

text \<open>
  Claim C1 as stated (a second decision on the same id fails \<open>NotFound\<close> and changes
  nothing) fails: alice's request was rejected, she has no access; the moderator
  decides the same request again, now \<open>approved\<close>. The answer is 200, the request is
  \<open>Approved\<close> and alice has access.
\<close>

theorem decideInvite_replay_counterexample:
  "map i_status (privateInvites rejectedDb) = [Rejected]
   \<and> map u_hasPrivateAccess (users rejectedDb) = [True, True, False, False, False]
   \<and> r_status (fst (decideInvite env0 (Some 1) (Some (js ''approved'')) rejectedDb
         (sessionOf 2))) = 200
   \<and> map i_status (privateInvites (snd (snd (decideInvite env0 (Some 1)
         (Some (js ''approved'')) rejectedDb (sessionOf 2))))) = [Approved]
   \<and> map u_hasPrivateAccess (users (snd (snd (decideInvite env0 (Some 1)
         (Some (js ''approved'')) rejectedDb (sessionOf 2))))) = [True, True, True, False, False]"
proof -
  have s: "s_userId (sessionOf 2) = Some 2" by (simp add: sessionOf_def)
  have r: "u_role moderateur = Admin \<or> u_role moderateur = Moderator"
    by (simp add: moderateur_def)
  have u: "getUser rejectedDb 2 = Some moderateur"
    using getUser_forumDb by (simp add: rejectedDb_eq getUser_def)
  have f: "find (\<lambda>x. i_id x = 1) (privateInvites rejectedDb) =
      Some (invite1\<lparr>i_status := Rejected, i_reviewedById := Some 2, i_reviewedAt := Some 100\<rparr>)"
    by (simp add: rejectedDb_eq invite1_def)
  have t: "getUser rejectedDb (i_userId (invite1\<lparr>i_status := Rejected,
      i_reviewedById := Some 2, i_reviewedAt := Some 100\<rparr>)) \<noteq> None"
    using getUser_forumDb by (simp add: rejectedDb_eq getUser_def invite1_def)
  from decideInvite_present [OF s _ u r parseDecision_literals(1) f t int4_literals(1), of env0]
  show ?thesis
    by (simp add: respond_def)
      (simp add: rejectedDb_eq forumDb_def invite1_def admin_def moderateur_def alice_def
        bob_def newbie_def)
qed

text \<open>
  An instance for claim C1: the moderator decides request 7, which does not exist,
  request 2147483648, one past the range of the id column, and request 1, which is
  pending.
\<close>

theorem decideInvite_witness:
  "decideInvite env0 (Some 7) (Some (js ''approved'')) inviteDb (sessionOf 2) =
     (notFoundInvite, Some (sessionOf 2), inviteDb)
   \<and> r_status (fst (decideInvite env0 (Some 2147483648) (Some (js ''approved'')) inviteDb
         (sessionOf 2))) = 500
   \<and> snd (snd (decideInvite env0 (Some 2147483648) (Some (js ''approved'')) inviteDb
         (sessionOf 2))) = inviteDb
   \<and> r_status (fst (decideInvite env0 (Some 1) (Some (js ''approved'')) inviteDb
         (sessionOf 2))) = 200"
proof -
  have s: "s_userId (sessionOf 2) = Some 2" by (simp add: sessionOf_def)
  have r: "u_role moderateur = Admin \<or> u_role moderateur = Moderator"
    by (simp add: moderateur_def)
  have absent: "find (\<lambda>x. i_id x = 7) (privateInvites inviteDb) = None"
    by (simp add: inviteDb_eq invite1_def)
  have t: "getUser inviteDb (i_userId invite1) \<noteq> None"
    by (simp add: invite1_def getUser_inviteDb)
  from decideInvite_outcome [OF s _ getUser_inviteDb(1) r parseDecision_literals(1), of 7 env0]
    absent int4_literals(2)
  have a: "decideInvite env0 (Some 7) (Some (js ''approved'')) inviteDb (sessionOf 2) =
     (notFoundInvite, Some (sessionOf 2), inviteDb)" by simp
  from decideInvite_outcome [OF s _ getUser_inviteDb(1) r parseDecision_literals(1),
      of 2147483648 env0] int4_literals(3)
  have b: "r_status (fst (decideInvite env0 (Some 2147483648) (Some (js ''approved'')) inviteDb
         (sessionOf 2))) = 500
    \<and> snd (snd (decideInvite env0 (Some 2147483648) (Some (js ''approved'')) inviteDb
         (sessionOf 2))) = inviteDb" by (simp add: respond_def)
  from decideInvite_outcome [OF s _ getUser_inviteDb(1) r parseDecision_literals(1), of 1 env0]
    find_invite1 t int4_literals(1)
  have c: "r_status (fst (decideInvite env0 (Some 1) (Some (js ''approved'')) inviteDb
         (sessionOf 2))) = 200" by (simp add: respond_def)
  from a b c show ?thesis by simp
qed

lemma getUser_id: "getUser d uid = Some user \<Longrightarrow> u_id user = uid"
  by (auto simp: getUser_def find_Some_iff)

lemma getPrivateInviteByUser_mem:
  "getPrivateInviteByUser d uid = Some i \<Longrightarrow> i \<in> set (privateInvites d) \<and> i_userId i = uid"
proof -
  assume a: "getPrivateInviteByUser d uid = Some i"
  let ?rows = "orderByDesc i_createdAt (filter (\<lambda>x. i_userId x = uid) (privateInvites d))"
  from a have "i \<in> set ?rows"
    by (cases ?rows) (auto simp: getPrivateInviteByUser_def)
  then show ?thesis by (simp add: orderByDesc_def)
qed

lemma pendingIsLatest_iff:
  assumes "pendingIsLatest d"
  shows "(case getPrivateInviteByUser d uid of None \<Rightarrow> False | Some existing \<Rightarrow> i_status existing = Pending)
     \<longleftrightarrow> (\<exists>i\<in>set (privateInvites d). i_userId i = uid \<and> i_status i = Pending)"
proof
  assume "case getPrivateInviteByUser d uid of None \<Rightarrow> False | Some existing \<Rightarrow> i_status existing = Pending"
  then obtain i where "getPrivateInviteByUser d uid = Some i" "i_status i = Pending"
    by (auto split: option.splits)
  then show "\<exists>i\<in>set (privateInvites d). i_userId i = uid \<and> i_status i = Pending"
    using getPrivateInviteByUser_mem by blast
next
  assume "\<exists>i\<in>set (privateInvites d). i_userId i = uid \<and> i_status i = Pending"
  then obtain i where "i \<in> set (privateInvites d)" "i_userId i = uid" "i_status i = Pending"
    by blast
  with assms have "getPrivateInviteByUser d uid = Some i"
    by (auto simp: pendingIsLatest_def)
  with \<open>i_status i = Pending\<close>
  show "case getPrivateInviteByUser d uid of None \<Rightarrow> False | Some existing \<Rightarrow> i_status existing = Pending"
    by simp
qed

lemma trim_Nil: "trim [] = []"
  by (simp add: trim_def)

text \<open>
  Claim C7, as the code has it. For a session bound to an existing user the handler
  decides in this order: the user has the grant, \<open>Conflict\<close>; the user's most recent
  request is pending, \<open>Conflict\<close>; the justification is missing, or shorter than 50
  characters once the white space at its ends is trimmed, \<open>Validation\<close>; otherwise the
  sanitized justification goes to the database. When it holds no U+0000, a request
  with status \<open>Pending\<close> is inserted, with the justification as the column stores it,
  and the answer is 201; this includes a user whose most recent request was rejected.
  When it holds U+0000 the insert is refused and the answer is 500. The failures leave
  the database and the session as they were. In a state where a pending request is
  always its user's most recent one, the second test holds exactly when some request
  of the user is pending.
\<close>

theorem submitInvite_outcome:
  assumes "s_userId sess = Some uid" and "uid \<noteq> 0" and "getUser d uid = Some user"
  shows
    "(u_hasPrivateAccess user \<longrightarrow>
        submitInvite e reason d sess =
          (respond 400 (message (js ''Vous avez d'' @ [233] @ js ''j'' @ [224] @ js '' acc''
             @ [232] @ js ''s'')), Some sess, d))
   \<and> (\<not> u_hasPrivateAccess user
        \<and> (case getPrivateInviteByUser d uid of None \<Rightarrow> False
            | Some existing \<Rightarrow> i_status existing = Pending) \<longrightarrow>
        submitInvite e reason d sess =
          (respond 400 (message (js ''Vous avez d'' @ [233] @ js ''j'' @ [224]
             @ js '' une demande en cours'')), Some sess, d))
   \<and> (\<not> u_hasPrivateAccess user
        \<and> \<not> (case getPrivateInviteByUser d uid of None \<Rightarrow> False
              | Some existing \<Rightarrow> i_status existing = Pending)
        \<and> (case reason of None \<Rightarrow> True | Some r \<Rightarrow> length (trim r) < 50) \<longrightarrow>
        submitInvite e reason d sess =
          (respond 400 (message (js ''La raison doit contenir au moins 50 caract'' @ [232]
             @ js ''res'')), Some sess, d))
   \<and> (\<forall>r. \<not> u_hasPrivateAccess user
        \<and> \<not> (case getPrivateInviteByUser d uid of None \<Rightarrow> False
              | Some existing \<Rightarrow> i_status existing = Pending)
        \<and> reason = Some r \<and> 50 \<le> length (trim r) \<and> 0 \<notin> set r \<longrightarrow>
        submitInvite e reason d sess =
          (respond 201 (inviteJson
             \<lparr>i_id = nextInviteId d, i_userId = uid,
               i_reason = wellFormed (sanitizeInput r),
               i_status = Pending, i_reviewedById = None, i_reviewedAt = None,
               i_createdAt = e_now e\<rparr>),
           Some sess,
           d\<lparr>privateInvites := privateInvites d @
                [\<lparr>i_id = nextInviteId d, i_userId = uid,
                  i_reason = wellFormed (sanitizeInput r),
                  i_status = Pending, i_reviewedById = None, i_reviewedAt = None,
                  i_createdAt = e_now e\<rparr>],
             nextInviteId := nextInviteId d + 1\<rparr>))
   \<and> (\<forall>r. \<not> u_hasPrivateAccess user
        \<and> \<not> (case getPrivateInviteByUser d uid of None \<Rightarrow> False
              | Some existing \<Rightarrow> i_status existing = Pending)
        \<and> reason = Some r \<and> 50 \<le> length (trim r) \<and> 0 \<in> set r \<longrightarrow>
        submitInvite e reason d sess =
          (respond 500 (message (js ''Erreur lors de la cr'' @ [233]
             @ js ''ation de la demande'')), Some sess, d))
   \<and> (pendingIsLatest d \<longrightarrow>
        (case getPrivateInviteByUser d uid of None \<Rightarrow> False
         | Some existing \<Rightarrow> i_status existing = Pending)
        = (\<exists>i\<in>set (privateInvites d). i_userId i = uid \<and> i_status i = Pending))"
proof -
  have ident: "u_id user = uid" using assms(3) by (rule getUser_id)
  show ?thesis
    using assms ident pendingIsLatest_iff [of d uid]
    by (auto simp: submitInvite_def requireAuth_def createPrivateInvite_def Let_def trim_Nil
        pgText_def zero_sanitizeInput split: option.splits)
qed


lemma trim_padded: "trim (js ''please'' @ replicate 54 32) = js ''please''"
proof -
  have ws: "\<forall>x\<in>set (replicate 54 (32::nat)). isWhiteSpace x"
    by (simp add: isWhiteSpace_def)
  have front: "dropWhile isWhiteSpace (js ''please'' @ replicate 54 32)
      = js ''please'' @ replicate 54 32"
    by (simp add: js_def isWhiteSpace_def)
  have "rev (js ''please'' @ replicate 54 32) = replicate 54 32 @ rev (js ''please'')"
    by simp
  then have "dropWhile isWhiteSpace (rev (js ''please'' @ replicate 54 32))
      = dropWhile isWhiteSpace (rev (js ''please''))"
    using ws by (simp only: dropWhile_append2)
  also have "\<dots> = rev (js ''please'')"
    by (simp add: js_def isWhiteSpace_def)
  finally show ?thesis
    by (simp add: trim_def front)
qed

text \<open>
  Claim C7 as stated (a justification of 50 characters or more is accepted) fails: the
  justification has 60 characters, six letters and 54 spaces; alice has neither the
  grant nor a request; the answer is the \<open>Validation\<close> one and nothing is inserted.
\<close>

theorem submitInvite_padded_counterexample:
  "length (js ''please'' @ replicate 54 32) = 60
   \<and> getUser forumDb 3 = Some alice \<and> \<not> u_hasPrivateAccess alice
   \<and> privateInvites forumDb = []
   \<and> submitInvite env0 (Some (js ''please'' @ replicate 54 32)) forumDb (sessionOf 3) =
       (respond 400 (message (js ''La raison doit contenir au moins 50 caract'' @ [232]
          @ js ''res'')), Some (sessionOf 3), forumDb)"
proof -
  have none: "getPrivateInviteByUser forumDb 3 = None"
    by (simp add: getPrivateInviteByUser_def orderByDesc_def forumDb_def emptyDb_def)
  have len: "length (js ''please'' @ replicate 54 32) = 60"
    by (simp add: js_def)
  have sub: "submitInvite env0 (Some (js ''please'' @ replicate 54 32)) forumDb (sessionOf 3) =
       (respond 400 (message (js ''La raison doit contenir au moins 50 caract'' @ [232]
          @ js ''res'')), Some (sessionOf 3), forumDb)"
    by (simp add: submitInvite_def requireAuth_def sessionOf_def getUser_forumDb alice_def none
        trim_padded)
      (simp add: js_def)
  show ?thesis
    using len sub by (simp add: getUser_forumDb) (simp add: alice_def forumDb_def emptyDb_def)
qed

lemma trim_id:
  assumes "s \<noteq> []" and "\<not> isWhiteSpace (hd s)" and "\<not> isWhiteSpace (last s)"
  shows "trim s = s"
proof -
  have front: "dropWhile isWhiteSpace s = s"
    using assms(2) by (simp add: dropWhile_eq_self_iff)
  have "hd (rev s) = last s"
    using assms(1) by (simp add: hd_rev)
  then have "dropWhile isWhiteSpace (rev s) = rev s"
    using assms(3) by (simp add: dropWhile_eq_self_iff)
  then show ?thesis
    by (simp add: trim_def front)
qed

lemma trim_with_nul: "trim (0 # replicate 60 120) = 0 # replicate 60 120"
  by (rule trim_id) (simp_all add: isWhiteSpace_def)

text \<open>
  An instance for claim C7: alice submits 54 characters and gets a pending request;
  submits again and is refused with the database unchanged; submits after the
  rejection and is accepted; submits U+0000 followed by 60 letters and gets 500 with
  the database unchanged.
\<close>

theorem submitInvite_witness:
  "r_status (fst (submitInvite env0 (Some justification) forumDb (sessionOf 3))) = 201
   \<and> map i_status (privateInvites
        (snd (snd (submitInvite env0 (Some justification) forumDb (sessionOf 3))))) = [Pending]
   \<and> r_status (fst (submitInvite env0 (Some justification) inviteDb (sessionOf 3))) = 400
   \<and> snd (snd (submitInvite env0 (Some justification) inviteDb (sessionOf 3))) = inviteDb
   \<and> r_status (fst (submitInvite env0 (Some justification) rejectedDb (sessionOf 3))) = 201
   \<and> r_status (fst (submitInvite env0 (Some (0 # replicate 60 120)) forumDb (sessionOf 3)))
       = 500
   \<and> snd (snd (submitInvite env0 (Some (0 # replicate 60 120)) forumDb (sessionOf 3)))
       = forumDb"
proof -
  have s: "s_userId (sessionOf 3) = Some 3" by (simp add: sessionOf_def)
  have noacc: "\<not> u_hasPrivateAccess alice" by (simp add: alice_def)
  have len: "50 \<le> length (trim justification)" by (simp add: length_trim_justification)
  have nonul: "0 \<notin> set justification" by (simp add: justification_def js_def)
  have len0: "50 \<le> length (trim (0 # replicate 60 120))" by (simp add: trim_with_nul)
  have l0: "getPrivateInviteByUser forumDb 3 = None"
    by (simp add: getPrivateInviteByUser_def orderByDesc_def forumDb_def emptyDb_def)
  have l1: "getPrivateInviteByUser inviteDb 3 = Some invite1"
    by (simp add: getPrivateInviteByUser_def orderByDesc_def inviteDb_eq invite1_def)
  have l2: "getPrivateInviteByUser rejectedDb 3 =
      Some (invite1\<lparr>i_status := Rejected, i_reviewedById := Some 2, i_reviewedAt := Some 100\<rparr>)"
    by (simp add: getPrivateInviteByUser_def orderByDesc_def rejectedDb_eq invite1_def)
  have u2: "getUser rejectedDb 3 = Some alice"
    using getUser_forumDb by (simp add: rejectedDb_eq getUser_def)
  from submitInvite_outcome [OF s _ getUser_forumDb(2), of env0 "Some justification"]
    noacc len nonul l0
  have a: "r_status (fst (submitInvite env0 (Some justification) forumDb (sessionOf 3))) = 201
    \<and> map i_status (privateInvites
        (snd (snd (submitInvite env0 (Some justification) forumDb (sessionOf 3))))) = [Pending]"
    by (simp add: respond_def forumDb_def emptyDb_def)
  from submitInvite_outcome [OF s _ getUser_inviteDb(2), of env0 "Some justification"] noacc l1
  have b: "r_status (fst (submitInvite env0 (Some justification) inviteDb (sessionOf 3))) = 400
    \<and> snd (snd (submitInvite env0 (Some justification) inviteDb (sessionOf 3))) = inviteDb"
    by (simp add: respond_def invite1_def)
  from submitInvite_outcome [OF s _ u2, of env0 "Some justification"] noacc len nonul l2
  have c: "r_status (fst (submitInvite env0 (Some justification) rejectedDb (sessionOf 3))) = 201"
    by (simp add: respond_def invite1_def)
  from submitInvite_outcome [OF s _ getUser_forumDb(2), of env0 "Some (0 # replicate 60 120)"]
    noacc len0 l0
  have d: "r_status (fst (submitInvite env0 (Some (0 # replicate 60 120)) forumDb
        (sessionOf 3))) = 500
    \<and> snd (snd (submitInvite env0 (Some (0 # replicate 60 120)) forumDb (sessionOf 3)))
        = forumDb"
    by (simp add: respond_def)
  from a b c d show ?thesis by simp
qed

subsection \<open>A pending request is the most recent one\<close>

text \<open>
  The condition \<open>pendingIsLatest\<close> under which the test of the handler and the wording
  of the claim agree is kept by the workflow: it holds of the empty table, submitting
  keeps it when the clock has moved past the requests already stored, and deciding
  keeps it.
\<close>

lemma insort_key_snoc:
  "f y \<le> f x \<Longrightarrow> insort_key f y (zs @ [x]) = insort_key f y zs @ [x]"
  by (induction zs) auto

lemma sort_key_snoc:
  "\<forall>y\<in>set ys. f y \<le> f x \<Longrightarrow> sort_key f (ys @ [x]) = sort_key f ys @ [x]"
proof (induction ys)
  case Nil
  then show ?case by simp
next
  case (Cons y ys)
  then have "sort_key f ((y # ys) @ [x]) = insort_key f y (sort_key f ys @ [x])"
    by simp
  also have "\<dots> = insort_key f y (sort_key f ys) @ [x]"
    using Cons.prems by (intro insort_key_snoc) simp
  finally show ?case by simp
qed

lemma insort_key_map_same:
  "(\<And>x. f (g x) = f x) \<Longrightarrow> insort_key f (g y) (map g zs) = map g (insort_key f y zs)"
  by (induction zs) auto

lemma sort_key_map_same:
  "(\<And>x. f (g x) = f x) \<Longrightarrow> sort_key f (map g xs) = map g (sort_key f xs)"
  by (induction xs) (simp_all add: insort_key_map_same)

lemma getPrivateInviteByUser_insert:
  assumes "\<forall>i\<in>set (privateInvites d). i_userId i = i_userId n \<longrightarrow> i_createdAt i \<le> i_createdAt n"
  shows "getPrivateInviteByUser (d\<lparr>privateInvites := privateInvites d @ [n], nextInviteId := k\<rparr>) u
     = (if u = i_userId n then Some n else getPrivateInviteByUser d u)"
proof (cases "u = i_userId n")
  case True
  let ?ys = "filter (\<lambda>i. i_userId i = u) (privateInvites d)"
  have "\<forall>y\<in>set ?ys. i_createdAt y \<le> i_createdAt n"
    using assms True by simp
  then have "sort_key i_createdAt (?ys @ [n]) = sort_key i_createdAt ?ys @ [n]"
    by (rule sort_key_snoc)
  then show ?thesis
    using True by (simp add: getPrivateInviteByUser_def orderByDesc_def)
next
  case False
  then show ?thesis
    by (simp add: getPrivateInviteByUser_def)
qed

lemma getPrivateInviteByUser_decided:
  "getPrivateInviteByUser
     (d\<lparr>privateInvites := map (\<lambda>x. if i_id x = iid
            then x\<lparr>i_status := st, i_reviewedById := r, i_reviewedAt := t\<rparr> else x)
          (privateInvites d), users := us\<rparr>) u
   = map_option (\<lambda>x. if i_id x = iid
            then x\<lparr>i_status := st, i_reviewedById := r, i_reviewedAt := t\<rparr> else x)
       (getPrivateInviteByUser d u)"
proof -
  let ?g = "\<lambda>x. if i_id x = iid
            then x\<lparr>i_status := st, i_reviewedById := r, i_reviewedAt := t\<rparr> else x"
  let ?rows = "filter (\<lambda>i. i_userId i = u) (privateInvites d)"
  have f: "filter (\<lambda>i. i_userId i = u) (map ?g (privateInvites d)) = map ?g ?rows"
    by (induction "privateInvites d" arbitrary: d) (auto simp: filter_map comp_def)
  have s: "sort_key i_createdAt (map ?g ?rows) = map ?g (sort_key i_createdAt ?rows)"
    by (rule sort_key_map_same) simp
  show ?thesis
    by (cases "rev (sort_key i_createdAt ?rows)")
      (simp_all add: getPrivateInviteByUser_def orderByDesc_def f s rev_map)
qed

text \<open>An empty table is such a state; inserting a request and deciding one keep it so.\<close>

lemma pendingIsLatest_empty: "pendingIsLatest emptyDb"
  by (simp add: pendingIsLatest_def emptyDb_def)

lemma pendingIsLatest_insert:
  assumes "pendingIsLatest d"
    and "\<not> (case getPrivateInviteByUser d uid of None \<Rightarrow> False
            | Some existing \<Rightarrow> i_status existing = Pending)"
    and "\<forall>i\<in>set (privateInvites d). i_userId i = uid \<longrightarrow> i_createdAt i < now"
  shows "pendingIsLatest (snd (createPrivateInvite now uid reason d))"
proof (cases "getUser d uid = None \<or> pgText reason = None")
  case True
  then show ?thesis using assms(1) by (auto simp: createPrivateInvite_def)
next
  case False
  then obtain user stored where user: "getUser d uid = Some user"
    and stored: "pgText reason = Some stored" by auto
  let ?n = "\<lparr>i_id = nextInviteId d, i_userId = uid, i_reason = stored, i_status = Pending,
      i_reviewedById = None, i_reviewedAt = None, i_createdAt = now\<rparr>"
  have le: "\<forall>i\<in>set (privateInvites d). i_userId i = i_userId ?n \<longrightarrow> i_createdAt i \<le> i_createdAt ?n"
    using assms(3) by auto
  have latest: "getPrivateInviteByUser
      (d\<lparr>privateInvites := privateInvites d @ [?n], nextInviteId := nextInviteId d + 1\<rparr>) u
      = (if u = uid then Some ?n else getPrivateInviteByUser d u)" for u
    using getPrivateInviteByUser_insert [OF le, of "nextInviteId d + 1" u] by simp
  have old: "i_userId i \<noteq> uid"
    if "i \<in> set (privateInvites d)" "i_status i = Pending" for i
  proof
    assume "i_userId i = uid"
    with that assms(1) have "getPrivateInviteByUser d uid = Some i"
      by (auto simp: pendingIsLatest_def)
    with that(2) assms(2) show False by simp
  qed
  show ?thesis
    using user stored assms(1) old
    by (auto simp: createPrivateInvite_def Let_def pendingIsLatest_def latest)
qed

lemma pendingIsLatest_decided:
  assumes "pendingIsLatest d" and "st \<noteq> Pending"
    and "updatePrivateInvite now iid st uid d = Some (res, d')"
  shows "pendingIsLatest d'"
proof (cases "find (\<lambda>i. i_id i = iid) (privateInvites d)")
  case None
  then show ?thesis using assms by (auto simp: updatePrivateInvite_def split: if_splits)
next
  case (Some i)
  let ?g = "\<lambda>x. if i_id x = iid
            then x\<lparr>i_status := st, i_reviewedById := Some uid, i_reviewedAt := Some now\<rparr> else x"
  from Some assms(3) have staff: "getUser d uid \<noteq> None" and range: "int4 iid"
    by (auto simp: updatePrivateInvite_def split: if_splits)
  have d': "d' = d\<lparr>privateInvites := map ?g (privateInvites d),
         users := map (\<lambda>u. if st = Approved \<and> u_id u = i_userId i
              then u\<lparr>u_hasPrivateAccess := True\<rparr> else u) (users d)\<rparr>"
    using updatePrivateInvite_present [OF Some staff range, of now st] assms(3) by simp
  have "getPrivateInviteByUser d' (i_userId x) = Some x"
    if "x \<in> set (privateInvites d')" "i_status x = Pending" for x
  proof -
    from that(1) obtain y where y: "y \<in> set (privateInvites d)" "x = ?g y"
      by (auto simp: d')
    with that(2) assms(2) have same: "i_id y \<noteq> iid" "x = y"
      by (auto split: if_splits)
    with y that(2) assms(1) have "getPrivateInviteByUser d (i_userId y) = Some y"
      by (auto simp: pendingIsLatest_def)
    then show ?thesis
      using same by (simp add: d' getPrivateInviteByUser_decided)
  qed
  then show ?thesis by (simp add: pendingIsLatest_def)
qed

lemma pendingIsLatest_submit:
  assumes "pendingIsLatest d"
    and "\<forall>i\<in>set (privateInvites d). i_createdAt i < e_now e"
  shows "pendingIsLatest (snd (snd (submitInvite e reason d sess)))"
proof -
  have step: "pendingIsLatest d'"
    if "createPrivateInvite (e_now e) (u_id user) body d = (res, d')"
      and "case getPrivateInviteByUser d (u_id user) of None \<Rightarrow> True
           | Some existing \<Rightarrow> i_status existing \<noteq> Pending"
    for user body res d'
  proof -
    have "\<not> (case getPrivateInviteByUser d (u_id user) of None \<Rightarrow> False
            | Some existing \<Rightarrow> i_status existing = Pending)"
      using that(2) by (simp split: option.splits)
    then have "pendingIsLatest (snd (createPrivateInvite (e_now e) (u_id user) body d))"
      using assms by (intro pendingIsLatest_insert) auto
    then show ?thesis using that(1) by simp
  qed
  show ?thesis
    using assms(1)
    by (auto simp: submitInvite_def requireAuth_def split: option.splits prod.splits
        intro: step)
qed

lemma parseDecision_not_Pending: "parseDecision status = Some st \<Longrightarrow> st \<noteq> Pending"
  by (auto simp: parseDecision_def split: if_splits)

lemma privateInvites_createModerationLog:
  "privateInvites (snd (createModerationLog now m t a r x d)) = privateInvites d"
  by (simp add: createModerationLog_def Let_def)

lemma pendingIsLatest_log:
  "pendingIsLatest d \<Longrightarrow> pendingIsLatest (snd (createModerationLog now m t a r x d))"
  by (simp add: pendingIsLatest_def getPrivateInviteByUser_def createModerationLog_def Let_def)

lemma requireRole_db:
  assumes "P d" and "\<And>uid. P (snd (snd (next uid)))"
  shows "P (snd (snd (requireRole roles d sess next)))"
  using assms by (auto simp: requireRole_def split: option.splits)

lemma pendingIsLatest_decide:
  assumes "pendingIsLatest d"
  shows "pendingIsLatest (snd (snd (decideInvite e iid status d sess)))"
  unfolding decideInvite_def
proof (rule requireRole_db [where P = pendingIsLatest])
  show "pendingIsLatest d" by (rule assms)
next
  fix uid
  show "pendingIsLatest (snd (snd (case parseDecision status of
         None \<Rightarrow> (respond 400 (message (js ''Statut invalide'')), Some sess, d)
       | Some st \<Rightarrow>
           (case iid of
              None \<Rightarrow> (respond 500 (message
                (js ''Erreur lors de la mise '' @ [224] @ js '' jour de la demande'')), Some sess, d)
            | Some iid \<Rightarrow>
                (case updatePrivateInvite (e_now e) iid st uid d of
                   None \<Rightarrow> (respond 500 (message
                     (js ''Erreur lors de la mise '' @ [224] @ js '' jour de la demande'')), Some sess, d)
                 | Some (None, d') \<Rightarrow> (notFoundInvite, Some sess, d')
                 | Some (Some invite, d') \<Rightarrow>
                     (case createModerationLog (e_now e) uid (Some (i_userId invite))
                             (if st = Approved then ApproveInviteAction else RejectInviteAction)
                             None None d' of
                        (None, d'') \<Rightarrow> (respond 500 (message
                          (js ''Erreur lors de la mise '' @ [224] @ js '' jour de la demande'')), Some sess, d'')
                      | (Some _, d'') \<Rightarrow>
                          (respond 200 (inviteJson invite), Some sess, d'')))))))"
  proof (cases "parseDecision status")
    case None
    then show ?thesis using assms by simp
  next
    case (Some st)
    note st = this
    show ?thesis
    proof (cases iid)
      case None
      then show ?thesis using assms st by simp
    next
      case (Some i)
      note i = this
      show ?thesis
      proof (cases "updatePrivateInvite (e_now e) i st uid d")
        case None
        then show ?thesis using assms st i by simp
      next
        case (Some upd)
        obtain res d' where upd: "upd = (res, d')" by (cases upd)
        have d': "pendingIsLatest d'"
          using pendingIsLatest_decided [OF assms parseDecision_not_Pending [OF st]] Some upd
          by blast
        have logged: "pendingIsLatest (snd (createModerationLog now m t a r x d'))"
          for now m t a r x
          using d' by (rule pendingIsLatest_log)
        show ?thesis
        proof (cases res)
          case None
          then show ?thesis using st i Some upd d' by simp
        next
          case (Some invite)
          with logged [of "e_now e" uid "Some (i_userId invite)"
              "if st = Approved then ApproveInviteAction else RejectInviteAction" None None]
          show ?thesis
            using st i \<open>updatePrivateInvite (e_now e) i st uid d = Some upd\<close> upd
            by (auto split: prod.splits option.splits)
        qed
      qed
    qed
  qed
qed

text \<open>In such a state a user has at most one pending request.\<close>

lemma pendingIsLatest_unique:
  assumes "pendingIsLatest d"
    and "i \<in> set (privateInvites d)" and "j \<in> set (privateInvites d)"
    and "i_status i = Pending" and "i_status j = Pending" and "i_userId i = i_userId j"
  shows "i = j"
proof -
  have a: "getPrivateInviteByUser d (i_userId i) = Some i"
    using assms(1,2,4) by (simp add: pendingIsLatest_def)
  have b: "getPrivateInviteByUser d (i_userId j) = Some j"
    using assms(1,3,5) by (simp add: pendingIsLatest_def)
  show ?thesis
    using a b assms(6) by (metis option.inject)
qed

section \<open>The ban check and the anti-forgery token\<close>

text \<open>
  Claim C4. A request presents a stored session; the session names a user; the user is
  banned. Whatever the method, the header and the route, and whenever the session was
  stored, the answer is the \<open>Forbidden\<close> one of \<open>checkBanned\<close>, the session is removed from
  the store, and the database is as it was.
\<close>

theorem banned_session_rejected:
  assumes "q_cookie req = Some c" and "sv_sessions sv c = Some sess"
    and "s_userId sess = Some uid" and "uid \<noteq> 0"
    and "getUser (sv_db sv) uid = Some user" and "u_isBanned user"
  shows "handleRequest freshSid fresh handler sv req =
     (bannedResponse, sv\<lparr>sv_sessions := (sv_sessions sv)(c := None)\<rparr>)"
  using assms
  by (simp add: handleRequest_def loadSession_def apiChain_def checkBanned_def)

lemma csrfProtection_sess:
  "(if \<not> truthyStr (s_csrfToken sess) then sess\<lparr>s_csrfToken := Some fresh\<rparr> else sess)
     = sess\<lparr>s_csrfToken := Some (sessionToken fresh sess)\<rparr>"
  by (cases "s_csrfToken sess") (auto simp: truthyStr_def sessionToken_def)

lemma checkBanned_pass: "\<not> boundToBanned d sess \<Longrightarrow> checkBanned d sess next = next sess"
  by (auto simp: boundToBanned_def checkBanned_def split: option.splits)

lemma checkBanned_stop:
  "boundToBanned d sess \<Longrightarrow> checkBanned d sess next = (bannedResponse, None, d)"
  by (auto simp: boundToBanned_def checkBanned_def split: option.splits)

text \<open>
  Claim C5, as the code has it. \<open>checkBanned\<close> runs before \<open>csrfProtection\<close>, so the
  statement is for a session that is not bound to a banned user. For a method other
  than \<open>GET\<close>, \<open>HEAD\<close>, \<open>OPTIONS\<close>: when the header is missing, empty, or differs from
  the session's token, the answer is \<open>ForbiddenCsrf\<close>, the route is not called and the
  database is as it was. For \<open>GET\<close>, \<open>HEAD\<close>, \<open>OPTIONS\<close> the route is called whatever
  the header.
\<close>

theorem csrf_enforced:
  "(m \<notin> set [GET, HEAD, OPTIONS] \<and> \<not> boundToBanned d sess
      \<and> (clientToken = None \<or> clientToken = Some []
          \<or> clientToken \<noteq> Some (sessionToken fresh sess)) \<longrightarrow>
      apiChain fresh m clientToken handler d sess =
        (csrfResponse, Some (sess\<lparr>s_csrfToken := Some (sessionToken fresh sess)\<rparr>), d))
   \<and> (m \<in> set [GET, HEAD, OPTIONS] \<and> \<not> boundToBanned d sess \<longrightarrow>
      apiChain fresh m clientToken handler d sess =
        handler d (sess\<lparr>s_csrfToken := Some (sessionToken fresh sess)\<rparr>))"
  unfolding apiChain_def csrfProtection_def Let_def csrfProtection_sess
  by (auto simp: checkBanned_pass truthyStr_def)


lemma getUser_forumDb_more:
  "getUser forumDb 1 = Some admin" "getUser forumDb 4 = Some bob"
  by (simp_all add: forumDb_def getUser_def admin_def moderateur_def alice_def bob_def)

lemma handleRequest_pass:
  assumes "q_cookie req = Some c" and "sv_sessions sv c = Some sess"
    and "\<not> boundToBanned (sv_db sv) sess"
    and "truthyStr (s_csrfToken sess)" and "q_csrfToken req = s_csrfToken sess"
    and "handler (sv_db sv) sess = (res, Some sess', d')"
  shows "handleRequest freshSid fresh handler sv req =
     (res, \<lparr>sv_db = d', sv_sessions = (sv_sessions sv)(c \<mapsto> sess')\<rparr>)"
  using assms
  by (simp add: handleRequest_def loadSession_def apiChain_def checkBanned_pass
      csrfProtection_def Let_def)

lemma bannedServer_eq:
  "bannedServer = \<lparr>sv_db = forumDb\<lparr>
       users := [admin, moderateur, alice,
         bob\<lparr>u_isBanned := True, u_banReason := Some (js ''spam'')\<rparr>, newbie],
       moderationLogs := [\<lparr>l_id = 1, l_moderatorId = 1, l_targetUserId = Some 4,
         l_action = BanUserAction, l_reason = Some (js ''spam''), l_details = None,
         l_createdAt = 100\<rparr>],
       nextLogId := 2\<rparr>,
     sv_sessions = (sv_sessions server0)(js ''sid-admin'' \<mapsto> sessionOf 1)\<rparr>"
proof -
  have ban: "banUser env0 (Some 4) (Some (js ''spam'')) (sv_db server0) (sessionOf 1) =
     (respond 200 (omit ''password''
        (userJson (bob\<lparr>u_isBanned := True, u_banReason := Some (js ''spam'')\<rparr>))),
      Some (sessionOf 1),
      forumDb\<lparr>
        users := [admin, moderateur, alice,
          bob\<lparr>u_isBanned := True, u_banReason := Some (js ''spam'')\<rparr>, newbie],
        moderationLogs := [\<lparr>l_id = 1, l_moderatorId = 1, l_targetUserId = Some 4,
          l_action = BanUserAction, l_reason = Some (js ''spam''), l_details = None,
          l_createdAt = 100\<rparr>],
        nextLogId := 2\<rparr>)"
    by (simp add: banUser_def requireRole_def sessionOf_def updateUser_def server0_def
        createModerationLog_def getUser_def Let_def env0_def
        forumDb_def emptyDb_def admin_def moderateur_def alice_def bob_def newbie_def)
  have c: "q_cookie \<lparr>q_method = POST, q_cookie = Some (js ''sid-admin''),
      q_csrfToken = Some (js ''token'')\<rparr> = Some (js ''sid-admin'')" by simp
  have st: "sv_sessions server0 (js ''sid-admin'') = Some (sessionOf 1)"
    by (simp add: server0_def)
  have nb: "\<not> boundToBanned (sv_db server0) (sessionOf 1)"
    by (simp add: boundToBanned_def sessionOf_def server0_def getUser_forumDb_more admin_def)
  have tr: "truthyStr (s_csrfToken (sessionOf 1))"
    by (simp add: truthyStr_def sessionOf_def js_def)
  have hd: "q_csrfToken \<lparr>q_method = POST, q_cookie = Some (js ''sid-admin''),
      q_csrfToken = Some (js ''token'')\<rparr> = s_csrfToken (sessionOf 1)"
    by (simp add: sessionOf_def)
  from handleRequest_pass [OF c st nb tr hd, of "banUser env0 (Some 4) (Some (js ''spam''))",
      OF ban, of "js ''sid-new''" "js ''fresh''"]
  show ?thesis
    by (simp add: bannedServer_def serve_def)
qed

lemma bannedServer_db:
  "sv_db bannedServer = forumDb\<lparr>
     users := [admin, moderateur, alice,
       bob\<lparr>u_isBanned := True, u_banReason := Some (js ''spam'')\<rparr>, newbie],
     moderationLogs := [\<lparr>l_id = 1, l_moderatorId = 1, l_targetUserId = Some 4,
       l_action = BanUserAction, l_reason = Some (js ''spam''), l_details = None,
       l_createdAt = 100\<rparr>],
     nextLogId := 2\<rparr>"
  by (simp add: bannedServer_eq)

lemma bannedServer_session:
  "sv_sessions bannedServer (js ''sid-bob'') = Some (sessionOf 4)"
  by (simp add: bannedServer_eq server0_def js_def)

lemma getUser_bannedServer_4:
  "getUser (sv_db bannedServer) 4 = Some (bob\<lparr>u_isBanned := True, u_banReason := Some (js ''spam'')\<rparr>)"
  by (simp add: bannedServer_db getUser_def admin_def moderateur_def alice_def bob_def)

text \<open>
  An instance for claim C4: bob's session was stored before the ban and bob was not
  banned then. After the
  administrator's ban, bob's next request is refused and his session removed.
\<close>

theorem banned_session_witness:
  "getUser (sv_db server0) 4 = Some bob \<and> \<not> u_isBanned bob
   \<and> sv_sessions server0 (js ''sid-bob'') = Some (sessionOf 4)
   \<and> serve env0 (js ''sid-new'') (js ''fresh'') bannedServer (Some (js ''sid-bob''))
         (Some (js ''token'')) MeEP =
       (bannedResponse,
        bannedServer\<lparr>sv_sessions := (sv_sessions bannedServer)(js ''sid-bob'' := None)\<rparr>)"
proof -
  have before: "getUser (sv_db server0) 4 = Some bob \<and> \<not> u_isBanned bob
      \<and> sv_sessions server0 (js ''sid-bob'') = Some (sessionOf 4)"
    by (simp add: server0_def getUser_forumDb_more) (simp add: bob_def js_def)
  have s: "s_userId (sessionOf 4) = Some 4" by (simp add: sessionOf_def)
  have b: "u_isBanned (bob\<lparr>u_isBanned := True, u_banReason := Some (js ''spam'')\<rparr>)"
    by simp
  have c: "q_cookie \<lparr>q_method = methodOf MeEP, q_cookie = Some (js ''sid-bob''),
      q_csrfToken = Some (js ''token'')\<rparr> = Some (js ''sid-bob'')" by simp
  from banned_session_rejected [OF c bannedServer_session s _ getUser_bannedServer_4 b,
      of "js ''sid-new''" "js ''fresh''" "route env0 (js ''fresh'') MeEP"]
  show ?thesis
    using before by (simp add: serve_def)
qed

text \<open>
  Claim C5 as stated (every state-changing request without a valid token fails
  \<open>ForbiddenCsrf\<close>) fails for the session of a banned user: bob is banned, his \<open>POST\<close>
  without a token is answered by \<open>checkBanned\<close>, which is not the \<open>ForbiddenCsrf\<close> answer.
\<close>

theorem csrf_banned_counterexample:
  "getUser (sv_db bannedServer) 4 =
     Some (bob\<lparr>u_isBanned := True, u_banReason := Some (js ''spam'')\<rparr>)
   \<and> apiChain (js ''fresh'') POST None
        (route env0 (js ''fresh'') (CreatePostEP (Some 1) (Some (js ''hello''))))
        (sv_db bannedServer) (sessionOf 4) = (bannedResponse, None, sv_db bannedServer)
   \<and> bannedResponse \<noteq> csrfResponse"
  by (simp add: getUser_bannedServer_4 apiChain_def checkBanned_def sessionOf_def)
    (simp add: bannedResponse_def csrfResponse_def respond_def message_def js_def)

text \<open>
  An instance for claim C5, alice's valid session: a \<open>POST\<close> with no token and one
  with a wrong token are refused with the database unchanged; a \<open>GET\<close> with no token
  is served.
\<close>

theorem csrf_witness:
  "apiChain (js ''fresh'') POST None
      (route env0 (js ''fresh'') (CreatePostEP (Some 1) (Some (js ''hello''))))
      afterPost (sessionOf 3) = (csrfResponse, Some (sessionOf 3), afterPost)
   \<and> apiChain (js ''fresh'') POST (Some (js ''guess''))
      (route env0 (js ''fresh'') (CreatePostEP (Some 1) (Some (js ''hello''))))
      afterPost (sessionOf 3) = (csrfResponse, Some (sessionOf 3), afterPost)
   \<and> r_status (fst (apiChain (js ''fresh'') GET None (route env0 (js ''fresh'') MeEP)
      afterPost (sessionOf 3))) = 200"
proof -
  have u: "getUser afterPost 3 = Some (alice\<lparr>u_threadCount := 1\<rparr>)"
    by (simp add: afterPost_eq forumDb_def getUser_def admin_def moderateur_def alice_def)
  have nb: "\<not> boundToBanned afterPost (sessionOf 3)"
    by (simp add: boundToBanned_def sessionOf_def u alice_def)
  have tok: "sessionToken (js ''fresh'') (sessionOf 3) = js ''token''"
    by (simp add: sessionToken_def sessionOf_def js_def)
  have same: "(sessionOf 3)\<lparr>s_csrfToken := Some (js ''token'')\<rparr> = sessionOf 3"
    by (simp add: sessionOf_def)
  have neq: "js ''guess'' \<noteq> js ''token''" by (simp add: js_def)
  from csrf_enforced [of POST afterPost "sessionOf 3" None "js ''fresh''"
      "route env0 (js ''fresh'') (CreatePostEP (Some 1) (Some (js ''hello'')))"] nb
  have p1: "apiChain (js ''fresh'') POST None
      (route env0 (js ''fresh'') (CreatePostEP (Some 1) (Some (js ''hello''))))
      afterPost (sessionOf 3) = (csrfResponse, Some (sessionOf 3), afterPost)"
    by (simp add: tok same)
  from csrf_enforced [of POST afterPost "sessionOf 3" "Some (js ''guess'')" "js ''fresh''"
      "route env0 (js ''fresh'') (CreatePostEP (Some 1) (Some (js ''hello'')))"] nb neq
  have p2: "apiChain (js ''fresh'') POST (Some (js ''guess''))
      (route env0 (js ''fresh'') (CreatePostEP (Some 1) (Some (js ''hello''))))
      afterPost (sessionOf 3) = (csrfResponse, Some (sessionOf 3), afterPost)"
    by (simp add: tok same)
  from csrf_enforced [of GET afterPost "sessionOf 3" None "js ''fresh''"
      "route env0 (js ''fresh'') MeEP"] nb
  have "apiChain (js ''fresh'') GET None (route env0 (js ''fresh'') MeEP) afterPost (sessionOf 3)
      = me afterPost (sessionOf 3)"
    by (simp add: tok same)
  then have p3: "r_status (fst (apiChain (js ''fresh'') GET None (route env0 (js ''fresh'') MeEP)
      afterPost (sessionOf 3))) = 200"
    by (simp add: me_def sessionOf_def u respond_def)
  from p1 p2 p3 show ?thesis by simp
qed

section \<open>The password hash stays on the server\<close>

lemma safeUser_no_password: "\<not> hasKey ''password'' (omit ''password'' (userJson u))"
  by (simp add: userJson_def optStr_def split: option.splits)

lemma message_no_password: "\<not> hasKey ''password'' (message m)"
  by (simp add: message_def)

lemma body_respond: "r_body (respond code j) = j"
  by (simp add: respond_def)

lemma requireRole_no_password:
  assumes "\<And>uid. \<not> hasKey ''password'' (r_body (fst (next uid)))"
  shows "\<not> hasKey ''password'' (r_body (fst (requireRole roles d sess next)))"
  using assms
  by (auto simp: requireRole_def body_respond message_no_password split: option.splits)

lemma register_no_password:
  "\<not> hasKey ''password'' (r_body (fst (register e b d sess)))"
  by (auto simp: register_def body_respond message_no_password safeUser_no_password
      split: sum.splits option.splits prod.splits)

lemma login_no_password:
  "\<not> hasKey ''password'' (r_body (fst (login e b d sess)))"
  by (auto simp: login_def body_respond message_no_password safeUser_no_password Let_def
      bannedResponse_def split: sum.splits option.splits prod.splits)

lemma me_no_password:
  "\<not> hasKey ''password'' (r_body (fst (me d sess)))"
  by (auto simp: me_def body_respond message_no_password safeUser_no_password
      split: option.splits)

lemma adminUsers_no_password:
  "\<not> hasKey ''password'' (r_body (fst (adminUsers d sess)))"
  unfolding adminUsers_def
  by (rule requireRole_no_password)
    (simp add: body_respond safeUser_no_password list_ex_iff)

lemma setUserRole_no_password:
  "\<not> hasKey ''password'' (r_body (fst (setUserRole e i r d sess)))"
  unfolding setUserRole_def
  by (rule requireRole_no_password)
    (auto simp: body_respond message_no_password safeUser_no_password
      split: option.splits prod.splits)

lemma banUser_no_password:
  "\<not> hasKey ''password'' (r_body (fst (banUser e i r d sess)))"
  unfolding banUser_def
  by (rule requireRole_no_password)
    (auto simp: body_respond message_no_password safeUser_no_password
      split: option.splits prod.splits)

lemma apiChain_response:
  "fst (apiChain fresh m h handler d sess) = bannedResponse
   \<or> fst (apiChain fresh m h handler d sess) = csrfResponse
   \<or> (\<exists>s. fst (apiChain fresh m h handler d sess) = fst (handler d s))"
  by (auto simp: apiChain_def checkBanned_def csrfProtection_def Let_def split: option.splits)

lemma handleRequest_response:
  "fst (handleRequest freshSid fresh handler sv req) =
     fst (apiChain fresh (q_method req) (q_csrfToken req) handler (sv_db sv)
       (case loadSession sv req of None \<Rightarrow> emptySession | Some (c, s) \<Rightarrow> s))"
  by (simp add: handleRequest_def Let_def split: prod.splits option.splits)

lemma serve_no_password:
  assumes "\<And>d s. \<not> hasKey ''password'' (r_body (fst (route e fresh ep d s)))"
  shows "\<not> hasKey ''password'' (r_body (fst (serve e freshSid fresh sv cookie h ep)))"
proof -
  let ?sess = "case loadSession sv \<lparr>q_method = methodOf ep, q_cookie = cookie, q_csrfToken = h\<rparr>
      of None \<Rightarrow> emptySession | Some (c, s) \<Rightarrow> s"
  have eq: "fst (serve e freshSid fresh sv cookie h ep) =
      fst (apiChain fresh (methodOf ep) h (route e fresh ep) (sv_db sv) ?sess)"
    by (simp add: serve_def handleRequest_response)
  from apiChain_response [of fresh "methodOf ep" h "route e fresh ep" "sv_db sv" ?sess]
  show ?thesis
    unfolding eq using assms
    by (auto simp: bannedResponse_def csrfResponse_def body_respond message_no_password)
qed

text \<open>
  Claim C10. Whatever the request, the server state and the route's arguments, the
  body answered by register, login, the current-user route, the role change, the ban
  and the user listing has no \<open>password\<close> key at any depth: each of them sends either a
  message or user objects from which the key was taken out, and so do the two
  middlewares in front of them.
\<close>

theorem responses_without_password:
  "\<not> hasKey ''password'' (r_body (fst (serve e freshSid fresh sv cookie h (RegisterEP rb))))
   \<and> \<not> hasKey ''password'' (r_body (fst (serve e freshSid fresh sv cookie h (LoginEP lb))))
   \<and> \<not> hasKey ''password'' (r_body (fst (serve e freshSid fresh sv cookie h MeEP)))
   \<and> \<not> hasKey ''password'' (r_body (fst (serve e freshSid fresh sv cookie h (SetUserRoleEP i r))))
   \<and> \<not> hasKey ''password'' (r_body (fst (serve e freshSid fresh sv cookie h (BanUserEP j x))))
   \<and> \<not> hasKey ''password'' (r_body (fst (serve e freshSid fresh sv cookie h AdminUsersEP)))"
  by (intro conjI serve_no_password)
    (simp_all add: register_no_password login_no_password me_no_password
      setUserRole_no_password banUser_no_password adminUsers_no_password)


text \<open>What is sent of a user does not depend on the stored hash.\<close>

lemma safeUser_independent:
  "omit ''password'' (userJson (u\<lparr>u_password := p\<rparr>)) = omit ''password'' (userJson u)"
  by (simp add: userJson_def)

text \<open>
  An instance for claim C10: the administrator lists the users; the answer is 200, its
  objects have a \<open>username\<close> and no \<open>password\<close>.
\<close>

theorem responses_without_password_witness:
  "r_status (fst (serve env0 (js ''sid-new'') (js ''fresh'') server0 (Some (js ''sid-admin''))
       (Some (js ''token'')) AdminUsersEP)) = 200
   \<and> hasKey ''username'' (r_body (fst (serve env0 (js ''sid-new'') (js ''fresh'') server0
       (Some (js ''sid-admin'')) (Some (js ''token'')) AdminUsersEP)))
   \<and> \<not> hasKey ''password'' (r_body (fst (serve env0 (js ''sid-new'') (js ''fresh'') server0
       (Some (js ''sid-admin'')) (Some (js ''token'')) AdminUsersEP)))"
proof -
  have c: "q_cookie \<lparr>q_method = GET, q_cookie = Some (js ''sid-admin''),
      q_csrfToken = Some (js ''token'')\<rparr> = Some (js ''sid-admin'')" by simp
  have st: "sv_sessions server0 (js ''sid-admin'') = Some (sessionOf 1)"
    by (simp add: server0_def)
  have nb: "\<not> boundToBanned (sv_db server0) (sessionOf 1)"
    by (simp add: boundToBanned_def sessionOf_def server0_def getUser_forumDb_more admin_def)
  have tr: "truthyStr (s_csrfToken (sessionOf 1))"
    by (simp add: truthyStr_def sessionOf_def js_def)
  have hd: "q_csrfToken \<lparr>q_method = GET, q_cookie = Some (js ''sid-admin''),
      q_csrfToken = Some (js ''token'')\<rparr> = s_csrfToken (sessionOf 1)"
    by (simp add: sessionOf_def)
  have list: "adminUsers (sv_db server0) (sessionOf 1) =
      (respond 200 (JArr (map (\<lambda>u. omit ''password'' (userJson u)) (getAllUsers forumDb))),
       Some (sessionOf 1), forumDb)"
    by (simp add: adminUsers_def requireRole_def server0_def sessionOf_def getUser_forumDb_more
        admin_def)
  have users: "getAllUsers forumDb \<noteq> []"
    by (simp add: getAllUsers_def orderByDesc_def forumDb_def)
  have "hasKey ''username'' (JArr (map (\<lambda>u. omit ''password'' (userJson u)) (getAllUsers forumDb)))"
    using users by (cases "getAllUsers forumDb") (simp_all add: userJson_def)
  with handleRequest_pass [OF c st nb tr hd, of adminUsers, OF list,
      of "js ''sid-new''" "js ''fresh''"]
  have "r_status (fst (serve env0 (js ''sid-new'') (js ''fresh'') server0 (Some (js ''sid-admin''))
       (Some (js ''token'')) AdminUsersEP)) = 200
   \<and> hasKey ''username'' (r_body (fst (serve env0 (js ''sid-new'') (js ''fresh'') server0
       (Some (js ''sid-admin'')) (Some (js ''token'')) AdminUsersEP)))"
    by (simp add: serve_def respond_def)
  with responses_without_password [of env0 "js ''sid-new''" "js ''fresh''" server0
      "Some (js ''sid-admin'')" "Some (js ''token'')"]
  show ?thesis by simp
qed

end
